theory Spec2Isabelle
  imports Complex_Main "HOL-Library.AList"
begin

section \<open>Python values used by the pipeline\<close>

subsection \<open>Exceptions\<close>

text \<open>
  Every fault of the pipeline is an instance of a subclass of Python's \<open>Exception\<close>, so
  every \<open>except Exception as e\<close> of the source catches it. The only thing the source ever
  reads from a caught exception is \<open>str(e)\<close>, which is what the constructor carries.
  A function that may raise returns \<open>exn + 'a\<close>, with \<open>Inl\<close> for the raised exception.
\<close>

datatype exn = Exception string

fun str_exn :: "exn \<Rightarrow> string" where
  "str_exn (Exception msg) = msg"

text \<open>\<open>xs[0]\<close> on a Python list: raises \<open>IndexError\<close> on the empty list.\<close>

definition index0 :: "'a list \<Rightarrow> exn + 'a" where
  "index0 xs = (case xs of [] \<Rightarrow> Inl (Exception ''list index out of range'') | x # _ \<Rightarrow> Inr x)"

subsection \<open>Floats\<close>

text \<open>
  A Python \<open>float\<close> is an IEEE 754 binary64 value. A finite value is carried by the
  rational it denotes (the two zeros, which compare equal, are both \<open>Finite 0\<close>); the
  arithmetic operations compute the exact rational result and round it to the nearest
  binary64 value, ties to the even significand (\<open>round64\<close>).
\<close>

datatype pyfloat = Finite rat | PInf | NInf | NaN

text \<open>Round to the nearest integer, ties to even.\<close>

definition rne :: "rat \<Rightarrow> int" where
  "rne x = (let f = \<lfloor>x\<rfloor>; d = x - of_int f in
     if d < 1 / 2 then f else if 1 / 2 < d then f + 1 else if even f then f else f + 1)"

text \<open>\<open>ilog2 x\<close> is the integer \<open>k\<close> with \<open>2^k \<le> x < 2^(k+1)\<close>, for \<open>x > 0\<close>.\<close>

function ilog2_up :: "rat \<Rightarrow> int" where
  "ilog2_up x = (if x < 2 then 0 else 1 + ilog2_up (x / 2))"
  by pat_completeness auto
termination
  by (relation "measure (\<lambda>x. nat \<lfloor>x\<rfloor>)") (auto simp: floor_less_iff less_floor_iff, linarith)

function ilog2_down :: "rat \<Rightarrow> int" where
  "ilog2_down x = (if x \<le> 0 \<or> 1 \<le> x then 0 else ilog2_down (2 * x) - 1)"
  by pat_completeness auto
termination
proof (relation "measure (\<lambda>x. nat \<lceil>1 / x\<rceil>)")
  show "wf (measure (\<lambda>x::rat. nat \<lceil>1 / x\<rceil>))" by simp
next
  fix x :: rat
  assume "\<not> (x \<le> 0 \<or> 1 \<le> x)"
  then have x: "0 < x" "x < 1" by auto
  define y where "y = 1 / x"
  have y: "1 < y" using x by (simp add: y_def)
  have c2: "2 \<le> \<lceil>y\<rceil>" using y by (simp add: le_ceiling_iff)
  have "y \<le> of_int \<lceil>y\<rceil>" by (rule le_of_int_ceiling)
  moreover have "(2::rat) \<le> of_int \<lceil>y\<rceil>" using c2 by linarith
  ultimately have "y / 2 \<le> of_int \<lceil>y\<rceil> - 1" by linarith
  then have "\<lceil>y / 2\<rceil> < \<lceil>y\<rceil>" by (simp only: ceiling_less_iff)
  moreover have e: "1 / (2 * x) = y / 2" by (simp add: y_def)
  ultimately have "\<lceil>1 / (2 * x)\<rceil> < \<lceil>y\<rceil>" by (simp only: e)
  then show "(2 * x, x) \<in> measure (\<lambda>x. nat \<lceil>1 / x\<rceil>)" using c2 x unfolding y_def by simp
qed

declare ilog2_up.simps [simp del] ilog2_down.simps [simp del]

definition ilog2 :: "rat \<Rightarrow> int" where
  "ilog2 x = (if 1 \<le> x then ilog2_up x else ilog2_down x)"

text \<open>
  The exponent of the last place of the binary64 values around \<open>x > 0\<close>: 53 significant
  bits in the normal range, and the fixed spacing \<open>2^-1074\<close> of the subnormal range.
\<close>

definition quantum_exp :: "rat \<Rightarrow> int" where
  "quantum_exp x = max (ilog2 x - 52) (- 1074)"

definition round_pos :: "rat \<Rightarrow> rat" where
  "round_pos x = of_int (rne (x / 2 powi quantum_exp x)) * 2 powi quantum_exp x"

definition round_fin :: "rat \<Rightarrow> rat" where
  "round_fin x = (if x = 0 then 0 else if 0 < x then round_pos x else - round_pos (- x))"

text \<open>A result that rounds to magnitude \<open>2^1024\<close> or more overflows to an infinity.\<close>

definition overflow_threshold :: rat where
  "overflow_threshold = 2 ^ 1024"

definition round64 :: "rat \<Rightarrow> pyfloat" where
  "round64 x = (let r = round_fin x in
     if overflow_threshold \<le> r then PInf
     else if r \<le> - overflow_threshold then NInf
     else Finite r)"

fun float_neg :: "pyfloat \<Rightarrow> pyfloat" where
  "float_neg (Finite q) = Finite (- q)"
| "float_neg PInf = NInf"
| "float_neg NInf = PInf"
| "float_neg NaN = NaN"

text \<open>\<open>a + b\<close> on floats.\<close>

fun float_add :: "pyfloat \<Rightarrow> pyfloat \<Rightarrow> pyfloat" where
  "float_add NaN _ = NaN"
| "float_add _ NaN = NaN"
| "float_add (Finite p) (Finite q) = round64 (p + q)"
| "float_add PInf NInf = NaN"
| "float_add NInf PInf = NaN"
| "float_add PInf _ = PInf"
| "float_add NInf _ = NInf"
| "float_add (Finite p) PInf = PInf"
| "float_add (Finite p) NInf = NInf"

text \<open>\<open>a - b\<close> on floats.\<close>

definition float_sub :: "pyfloat \<Rightarrow> pyfloat \<Rightarrow> pyfloat" where
  "float_sub a b = float_add a (float_neg b)"

text \<open>IEEE division by a divisor that is not zero.\<close>

fun float_div :: "pyfloat \<Rightarrow> pyfloat \<Rightarrow> pyfloat" where
  "float_div NaN _ = NaN"
| "float_div _ NaN = NaN"
| "float_div (Finite p) (Finite q) = round64 (p / q)"
| "float_div (Finite p) _ = Finite 0"
| "float_div PInf (Finite q) = (if 0 < q then PInf else NInf)"
| "float_div NInf (Finite q) = (if 0 < q then NInf else PInf)"
| "float_div _ _ = NaN"

text \<open>
  \<open>x / n\<close> for a float \<open>x\<close> and an int \<open>n\<close>: the int is converted to the nearest float,
  and a zero divisor raises \<open>ZeroDivisionError\<close>.
\<close>

definition float_truediv_int :: "pyfloat \<Rightarrow> int \<Rightarrow> exn + pyfloat" where
  "float_truediv_int x n =
     (if n = 0 then Inl (Exception ''float division by zero'')
      else Inr (float_div x (round64 (of_int n))))"

text \<open>The comparisons \<open>a < b\<close> and \<open>a <= b\<close> on floats: false whenever a NaN is compared.\<close>

fun float_lt :: "pyfloat \<Rightarrow> pyfloat \<Rightarrow> bool" where
  "float_lt NaN _ = False"
| "float_lt _ NaN = False"
| "float_lt (Finite p) (Finite q) = (p < q)"
| "float_lt _ NInf = False"
| "float_lt PInf _ = False"
| "float_lt NInf _ = True"
| "float_lt (Finite p) PInf = True"

fun float_le :: "pyfloat \<Rightarrow> pyfloat \<Rightarrow> bool" where
  "float_le NaN _ = False"
| "float_le _ NaN = False"
| "float_le (Finite p) (Finite q) = (p \<le> q)"
| "float_le NInf _ = True"
| "float_le _ PInf = True"
| "float_le _ _ = False"

text \<open>
  \<open>sum(xs)\<close> over a list of floats, with the start value the int \<open>0\<close>. What it returns
  depends on the interpreter that runs the pipeline, which the repository does not fix.
  Before CPython 3.12 the items are added one after the other from left to right
  (\<open>Plain\<close>). From CPython 3.12 on the first item is added to the start value, and every
  further float is added with Neumaier's compensation: the rounding error of each addition
  is collected in a second float \<open>c\<close>, which is added at the end when it is finite and not
  zero (\<open>Compensated\<close>).
\<close>

datatype float_summation = Plain | Compensated

definition py_sum_plain :: "pyfloat list \<Rightarrow> pyfloat" where
  "py_sum_plain xs = foldl float_add (Finite 0) xs"

text \<open>\<open>fabs(x)\<close> and \<open>isfinite(x)\<close>.\<close>

fun float_abs :: "pyfloat \<Rightarrow> pyfloat" where
  "float_abs (Finite q) = Finite \<bar>q\<bar>"
| "float_abs PInf = PInf"
| "float_abs NInf = PInf"
| "float_abs NaN = NaN"

fun is_finite :: "pyfloat \<Rightarrow> bool" where
  "is_finite (Finite q) = True"
| "is_finite _ = False"

text \<open>
  One step of the compensated sum, on the running sum \<open>f\<close> and the compensation \<open>c\<close>:
  \<open>t = f + x; c += (f - t) + x if fabs(f) >= fabs(x) else (x - t) + f; f = t\<close>.
\<close>

definition compensated_step :: "pyfloat \<times> pyfloat \<Rightarrow> pyfloat \<Rightarrow> pyfloat \<times> pyfloat" where
  "compensated_step fc x =
     (let f = fst fc; c = snd fc; t = float_add f x in
      (t, if float_le (float_abs x) (float_abs f)
          then float_add c (float_add (float_sub f t) x)
          else float_add c (float_add (float_sub x t) f)))"

definition py_sum_compensated :: "pyfloat list \<Rightarrow> pyfloat" where
  "py_sum_compensated xs =
     (case xs of
        [] \<Rightarrow> Finite 0
      | x # rest \<Rightarrow>
         (let fc = foldl compensated_step (float_add (Finite 0) x, Finite 0) rest;
              f = fst fc; c = snd fc
          in if c \<noteq> Finite 0 \<and> is_finite c then float_add f c else f))"

fun py_sum :: "float_summation \<Rightarrow> pyfloat list \<Rightarrow> pyfloat" where
  "py_sum Plain xs = py_sum_plain xs"
| "py_sum Compensated xs = py_sum_compensated xs"

subsection \<open>Strings\<close>

definition NL :: char where
  "NL = CHR 0x0A"

text \<open>\<open>sep.join(xs)\<close>.\<close>

fun str_join :: "string \<Rightarrow> string list \<Rightarrow> string" where
  "str_join sep [] = []"
| "str_join sep [x] = x"
| "str_join sep (x # y # ys) = x @ sep @ str_join sep (y # ys)"

text \<open>\<open>str(n)\<close> for a non-negative int: its decimal digits.\<close>

definition digit_char :: "nat \<Rightarrow> char" where
  "digit_char d = char_of (48 + d)"

fun str_nat :: "nat \<Rightarrow> string" where
  "str_nat n = (if n < 10 then [digit_char n] else str_nat (n div 10) @ [digit_char (n mod 10)])"

declare str_nat.simps [simp del]

text \<open>
  \<open>s.strip()\<close>: characters are read as code points below 256, of which Python's
  \<open>isspace\<close> holds for 9 to 13, 28 to 32, 133 and 160.
\<close>

definition is_space :: "char \<Rightarrow> bool" where
  "is_space c = (let n = (of_char c :: nat) in
     (9 \<le> n \<and> n \<le> 13) \<or> (28 \<le> n \<and> n \<le> 32) \<or> n = 133 \<or> n = 160)"

definition strip :: "string \<Rightarrow> string" where
  "strip s = rev (dropWhile is_space (rev (dropWhile is_space s)))"

subsection \<open>Dictionaries\<close>

text \<open>
  A metadata dictionary maps string keys to strings or ints; \<open>d.get(k, default)\<close> never
  raises.
\<close>

datatype meta_val = MStr string | MInt int

type_synonym metadata = "(string \<times> meta_val) list"

definition dict_get :: "metadata \<Rightarrow> string \<Rightarrow> meta_val \<Rightarrow> meta_val" where
  "dict_get d k dflt = (case map_of d k of Some v \<Rightarrow> v | None \<Rightarrow> dflt)"

section \<open>The collaborators and the state they share\<close>

type_synonym embedding = "pyfloat list"

record stored_vector =
  sv_embedding :: embedding
  sv_document :: string
  sv_metadata :: metadata

text \<open>A collection holds its stored vectors by id, in insertion order.\<close>

type_synonym collection = "(string \<times> stored_vector) list"

text \<open>
  The reply of \<open>collection.query\<close>: one row per query embedding under each of the keys
  \<open>documents\<close>, \<open>distances\<close> and \<open>metadatas\<close>.
\<close>

record query_results =
  documents :: "string list list"
  distances :: "pyfloat list list"
  metadatas :: "metadata list list"

text \<open>
  The external collaborators, as the source calls them. Their algorithms are not part of
  the repository, so each is a parameter:
  \<^item> \<open>client_error name\<close>: the exception \<open>client.get_or_create_collection(name)\<close> raises, if any;
  \<^item> \<open>sentence_transformer_error\<close>: the exception loading the embedding model raises, if any;
  \<^item> \<open>encode texts\<close>: \<open>model.encode(texts, convert_to_numpy=True).tolist()\<close>;
  \<^item> \<open>collection_query contents embeddings n\<close>: \<open>collection.query(query_embeddings=embeddings,
    n_results=n, include=[...])\<close> on a collection with the given contents;
  \<^item> \<open>load_llm_error model_name\<close>: the exception loading the tokenizer, the model or the
    pipeline raises, if any;
  \<^item> \<open>pipe model_name prompt max_new_tokens\<close>: the \<open>generated_text\<close> of each sequence the
    text2text pipeline returns for the prompt (greedy decoding, one sequence requested).
  The last field is not a collaborator but the interpreter: \<open>summation\<close> says how its
  \<open>sum\<close> adds floats.
  The \<open>lru_cache\<close> on the two loaders only saves repeated loading: a failed load is not
  cached, and a collaborator answers the same question the same way, so the caches are
  not part of the state. Logging has no effect on any result and is left out.
\<close>

record collaborators =
  client_error :: "string \<Rightarrow> exn option"
  sentence_transformer_error :: "exn option"
  encode :: "string list \<Rightarrow> exn + embedding list"
  collection_query :: "collection \<Rightarrow> embedding list \<Rightarrow> int \<Rightarrow> exn + query_results"
  load_llm_error :: "string \<Rightarrow> exn option"
  pipe :: "string \<Rightarrow> string \<Rightarrow> int \<Rightarrow> exn + string list"
  summation :: float_summation

text \<open>
  The state: the persisted collections by name, and the trace of what was asked of the
  generation collaborator (oldest first).
\<close>

datatype gen_event = LoadLLM string | Pipe string string int

record world =
  db :: "string \<Rightarrow> collection option"
  gen_trace :: "gen_event list"

definition collection_contents :: "world \<Rightarrow> string \<Rightarrow> collection" where
  "collection_contents w name = (case db w name of Some c \<Rightarrow> c | None \<Rightarrow> [])"

section \<open>embedding\_manager.py\<close>

definition load_embedding_model :: "collaborators \<Rightarrow> exn + unit" where
  "load_embedding_model env =
     (case sentence_transformer_error env of Some e \<Rightarrow> Inl e | None \<Rightarrow> Inr ())"

text \<open>
  \<open>get_or_create_collection\<close> returns a handle on the named collection (its name), creating
  an empty collection when there is none; a fault of the client is raised again.
\<close>

definition get_or_create_collection :: "collaborators \<Rightarrow> string \<Rightarrow> world \<Rightarrow> (exn + string) \<times> world" where
  "get_or_create_collection env collection_name w =
     (case client_error env collection_name of
        Some e \<Rightarrow> (Inl e, w)
      | None \<Rightarrow>
         (case db w collection_name of
            Some c \<Rightarrow> (Inr collection_name, w)
          | None \<Rightarrow> (Inr collection_name, w\<lparr>db := (db w)(collection_name \<mapsto> [])\<rparr>)))"

definition chunk_id :: "string \<Rightarrow> nat \<Rightarrow> string" where
  "chunk_id source_pdf i = source_pdf @ ''_'' @ str_nat i"

definition chunk_metadata :: "string \<Rightarrow> nat \<Rightarrow> metadata" where
  "chunk_metadata source_pdf i = [(''source_pdf'', MStr source_pdf), (''chunk_index'', MInt (int i))]"

text \<open>
  Modelled from the spec: writing entries into a collection by id, as the collaborator's
  upsert does. An id the collection holds keeps its place and gets the new entry; a new id
  is appended.
\<close>

fun upsert_all :: "(string \<times> stored_vector) list \<Rightarrow> collection \<Rightarrow> collection" where
  "upsert_all [] c = c"
| "upsert_all ((k, v) # kvs) c = upsert_all kvs (AList.update k v c)"

definition stored_vectors :: "embedding list \<Rightarrow> string list \<Rightarrow> metadata list \<Rightarrow> stored_vector list" where
  "stored_vectors embeddings docs metas =
     map (\<lambda>(e, d, m). \<lparr>sv_embedding = e, sv_document = d, sv_metadata = m\<rparr>)
       (zip embeddings (zip docs metas))"

text \<open>
  Modelled from the spec: the insertion of the vector-search collaborator
  (\<open>collection.add\<close> of the vector database, which the repository only calls). The spec
  gives its contract as \<open>upsert(collection, ids, vectors, documents, metadatas)\<close>: each
  id is written with its vector, text and metadata, replacing what the id held. The four
  sequences are order-aligned; sequences of different lengths are refused.
\<close>

definition collection_add ::
  "collection \<Rightarrow> embedding list \<Rightarrow> string list \<Rightarrow> string list \<Rightarrow> metadata list \<Rightarrow> exn + collection" where
  "collection_add c embeddings docs ids metas =
     (if length embeddings = length ids \<and> length docs = length ids \<and> length metas = length ids
      then Inr (upsert_all (zip ids (stored_vectors embeddings docs metas)) c)
      else Inl (Exception ''Number of embeddings, documents, ids and metadatas must match''))"

definition store_embeddings ::
  "collaborators \<Rightarrow> embedding list \<Rightarrow> string list \<Rightarrow> string \<Rightarrow> string \<Rightarrow> world \<Rightarrow> (exn + unit) \<times> world" where
  "store_embeddings env embeddings chunks source_pdf collection_name w =
     (case get_or_create_collection env collection_name w of
        (Inl e, w1) \<Rightarrow> (Inl e, w1)
      | (Inr coll, w1) \<Rightarrow>
         (let ids = map (chunk_id source_pdf) [0..<length chunks];
              metas = map (chunk_metadata source_pdf) [0..<length chunks]
          in case collection_add (collection_contents w1 coll) embeddings chunks ids metas of
               Inl e \<Rightarrow> (Inl e, w1)
             | Inr c \<Rightarrow> (Inr (), w1\<lparr>db := (db w1)(coll \<mapsto> c)\<rparr>)))"

text \<open>
  The entries \<open>store_embeddings\<close> hands to the collection: each chunk of the source under
  its id, with its embedding, its text and its metadata.
\<close>

definition written :: "embedding list \<Rightarrow> string list \<Rightarrow> string \<Rightarrow> (string \<times> stored_vector) list" where
  "written es cs src =
     zip (map (chunk_id src) [0..<length cs])
       (stored_vectors es cs (map (chunk_metadata src) [0..<length cs]))"

record retrieved_chunk =
  chunk :: string
  score :: pyfloat
  metadata :: metadata

text \<open>The loop over \<open>zip(documents, distances, metadatas)\<close>, which stops at the shortest.\<close>

definition format_results :: "string list \<Rightarrow> pyfloat list \<Rightarrow> metadata list \<Rightarrow> retrieved_chunk list" where
  "format_results docs dists metas =
     map (\<lambda>(doc, dist, meta). \<lparr>chunk = doc, score = float_sub (Finite 1) dist, metadata = meta\<rparr>)
       (zip docs (zip dists metas))"

text \<open>The \<open>try\<close> block of \<open>query_similar_chunks\<close>.\<close>

definition query_try :: "collaborators \<Rightarrow> string \<Rightarrow> int \<Rightarrow> collection \<Rightarrow> exn + retrieved_chunk list" where
  "query_try env query top_k contents =
     (case encode env [query] of Inl e \<Rightarrow> Inl e | Inr embs \<Rightarrow>
     (case index0 embs of Inl e \<Rightarrow> Inl e | Inr query_embedding \<Rightarrow>
     (case collection_query env contents [query_embedding] top_k of Inl e \<Rightarrow> Inl e | Inr results \<Rightarrow>
     (case index0 (documents results) of Inl e \<Rightarrow> Inl e | Inr docs \<Rightarrow>
     (case index0 (distances results) of Inl e \<Rightarrow> Inl e | Inr dists \<Rightarrow>
     (case index0 (metadatas results) of Inl e \<Rightarrow> Inl e | Inr metas \<Rightarrow>
        Inr (format_results docs dists metas)))))))"

text \<open>
  The collection and the model are obtained before the \<open>try\<close>: their faults leave
  \<open>query_similar_chunks\<close>. A fault inside the \<open>try\<close> is answered by the empty list.
\<close>

definition query_similar_chunks ::
  "collaborators \<Rightarrow> string \<Rightarrow> int \<Rightarrow> string \<Rightarrow> world \<Rightarrow> (exn + retrieved_chunk list) \<times> world" where
  "query_similar_chunks env query top_k collection_name w =
     (case get_or_create_collection env collection_name w of
        (Inl e, w1) \<Rightarrow> (Inl e, w1)
      | (Inr coll, w1) \<Rightarrow>
         (case load_embedding_model env of
            Inl e \<Rightarrow> (Inl e, w1)
          | Inr model \<Rightarrow>
             (case query_try env query top_k (collection_contents w1 coll) of
                Inl e \<Rightarrow> (Inr [], w1)
              | Inr output \<Rightarrow> (Inr output, w1))))"

section \<open>llm\_handler.py\<close>

definition format_prompt :: "string \<Rightarrow> string \<Rightarrow> string" where
  "format_prompt question context =
     ''You are a helpful assistant. '' @
     ''Answer the question using ONLY the context below. '' @
     ''If the answer is not in the context, say '' @ [CHR 0x27] @ ''I don'' @ [CHR 0x27] @
     ''t know.'' @ [CHR 0x27] @ '' '' @
     ''Be as detailed as possible.'' @ [NL, NL] @
     ''Context:'' @ [NL] @ context @ [NL, NL] @
     ''Question: '' @ question @ [NL] @ ''Answer:''"

text \<open>The \<open>try\<close> block of \<open>generate_answer\<close>.\<close>

definition generate_try ::
  "collaborators \<Rightarrow> string \<Rightarrow> string \<Rightarrow> string \<Rightarrow> int \<Rightarrow> world \<Rightarrow> (exn + string) \<times> world" where
  "generate_try env question context model_name max_new_tokens w =
     (let w1 = w\<lparr>gen_trace := gen_trace w @ [LoadLLM model_name]\<rparr> in
      case load_llm_error env model_name of
        Some e \<Rightarrow> (Inl e, w1)
      | None \<Rightarrow>
         (let prompt = format_prompt question context;
              w2 = w1\<lparr>gen_trace := gen_trace w1 @ [Pipe model_name prompt max_new_tokens]\<rparr>
          in case pipe env model_name prompt max_new_tokens of
               Inl e \<Rightarrow> (Inl e, w2)
             | Inr result \<Rightarrow>
                (case index0 result of
                   Inl e \<Rightarrow> (Inl e, w2)
                 | Inr generated_text \<Rightarrow> (Inr (strip generated_text), w2))))"

text \<open>Any fault of the \<open>try\<close> block is answered by \<open>None\<close>.\<close>

definition generate_answer ::
  "collaborators \<Rightarrow> string \<Rightarrow> string \<Rightarrow> string \<Rightarrow> int \<Rightarrow> world \<Rightarrow> (exn + string option) \<times> world" where
  "generate_answer env question context model_name max_new_tokens w =
     (case generate_try env question context model_name max_new_tokens w of
        (Inl e, w') \<Rightarrow> (Inr None, w')
      | (Inr text, w') \<Rightarrow> (Inr (Some text), w'))"

section \<open>rag\_pipeline.py\<close>

record source_entry =
  source_pdf :: meta_val
  chunk_index :: meta_val
  source_score :: pyfloat

record answer_result =
  answer :: "string option"
  sources :: "source_entry list"
  confidence :: pyfloat
  chunks :: "retrieved_chunk list"
  error :: "string option"

definition source_of :: "retrieved_chunk \<Rightarrow> source_entry" where
  "source_of item =
     \<lparr>source_pdf = dict_get (metadata item) ''source_pdf'' (MStr ''unknown''),
      chunk_index = dict_get (metadata item) ''chunk_index'' (MInt (- 1)),
      source_score = score item\<rparr>"

definition no_context_result :: answer_result where
  "no_context_result =
     \<lparr>answer = None, sources = [], confidence = Finite 0, chunks = [],
      error = Some ''No relevant context found.''\<rparr>"

definition failure_result :: "exn \<Rightarrow> answer_result" where
  "failure_result e =
     \<lparr>answer = None, sources = [], confidence = Finite 0, chunks = [], error = Some (str_exn e)\<rparr>"

text \<open>\<open>float(sum(scores)) / len(scores) if scores else 0.0\<close>.\<close>

definition compute_confidence :: "float_summation \<Rightarrow> pyfloat list \<Rightarrow> exn + pyfloat" where
  "compute_confidence how scores =
     (if scores \<noteq> [] then float_truediv_int (py_sum how scores) (int (length scores))
      else Inr (Finite 0))"

text \<open>The \<open>try\<close> block of \<open>answer_question\<close>.\<close>

definition answer_try ::
  "collaborators \<Rightarrow> string \<Rightarrow> int \<Rightarrow> string \<Rightarrow> string \<Rightarrow> world \<Rightarrow> (exn + answer_result) \<times> world" where
  "answer_try env question top_k collection_name model_name w =
     (case query_similar_chunks env question top_k collection_name w of
        (Inl e, w1) \<Rightarrow> (Inl e, w1)
      | (Inr retrieved, w1) \<Rightarrow>
         if retrieved = [] then (Inr no_context_result, w1)
         else
           (let context = str_join [NL, NL] (map chunk retrieved) in
            case generate_answer env question context model_name 256 w1 of
              (Inl e, w2) \<Rightarrow> (Inl e, w2)
            | (Inr ans, w2) \<Rightarrow>
               (let scores = map score retrieved in
                case compute_confidence (summation env) scores of
                  Inl e \<Rightarrow> (Inl e, w2)
                | Inr conf \<Rightarrow>
                   (Inr \<lparr>answer = ans, sources = map source_of retrieved,
                         confidence = conf, chunks = retrieved, error = None\<rparr>, w2))))"

text \<open>Any fault of the \<open>try\<close> block is answered by a result that carries its message.\<close>

definition answer_question ::
  "collaborators \<Rightarrow> string \<Rightarrow> int \<Rightarrow> string \<Rightarrow> string \<Rightarrow> world \<Rightarrow> (exn + answer_result) \<times> world" where
  "answer_question env question top_k collection_name model_name w =
     (case answer_try env question top_k collection_name model_name w of
        (Inl e, w') \<Rightarrow> (Inr (failure_result e), w')
      | (Inr result, w') \<Rightarrow> (Inr result, w'))"

text \<open>
  The value \<open>float(sum(scores)) / len(scores)\<close> of a list of scores that is not empty: the
  float sum, divided by the number of scores converted to a float.
\<close>

definition computed_mean :: "float_summation \<Rightarrow> pyfloat list \<Rightarrow> pyfloat" where
  "computed_mean how xs = float_div (py_sum how xs) (round64 (of_nat (length xs)))"

section \<open>The arithmetic mean of the spec\<close>

text \<open>
  The arithmetic mean of numbers, in exact arithmetic: their sum divided by their number.
\<close>

definition exact_mean :: "rat list \<Rightarrow> rat" where
  "exact_mean qs = sum_list qs / of_nat (length qs)"

text \<open>
  A rational is a binary64 value when rounding leaves it as it is. A list of numbers adds
  up exactly when each of them and each sum of its first \<open>k\<close> numbers is a binary64 value:
  then no addition of the float sum rounds.
\<close>

definition is_binary64 :: "rat \<Rightarrow> bool" where
  "is_binary64 q = (round64 q = Finite q)"

definition adds_exactly :: "rat list \<Rightarrow> bool" where
  "adds_exactly qs =
     (list_all is_binary64 qs
      \<and> list_all (\<lambda>k. is_binary64 (sum_list (take k qs))) [0..<Suc (length qs)])"

section \<open>Sample collaborators\<close>

text \<open>
  A world in which nothing has been indexed or asked, and collaborators that never fail:
  the vector search answers every query with the given documents and distances (chunks
  of a document \<open>doc1\<close>), the generation pipeline returns one sequence, and the interpreter
  sums floats plainly.
\<close>

definition fresh_world :: world where
  "fresh_world = \<lparr>db = (\<lambda>name. None), gen_trace = []\<rparr>"

definition sample_env :: "string list \<Rightarrow> pyfloat list \<Rightarrow> collaborators" where
  "sample_env docs dists =
     \<lparr>client_error = (\<lambda>name. None),
      sentence_transformer_error = None,
      encode = (\<lambda>texts. Inr (map (\<lambda>t. [Finite 0]) texts)),
      collection_query = (\<lambda>contents embeddings n.
        Inr \<lparr>documents = [docs], distances = [dists],
             metadatas = [map (chunk_metadata ''doc1'') [0..<length docs]]\<rparr>),
      load_llm_error = (\<lambda>model_name. None),
      pipe = (\<lambda>model_name prompt n. Inr ['' Paris '']),
      summation = Plain\<rparr>"

text \<open>The distance \<open>2^-60\<close>, a binary64 value: two nearly identical vectors.\<close>

definition tiny_distance :: pyfloat where
  "tiny_distance = Finite (1 / 2 ^ 60)"

text \<open>The distance \<open>1 - 2^-53\<close>, the largest binary64 value below one.\<close>

definition almost_one_distance :: pyfloat where
  "almost_one_distance = Finite (1 - 1 / 2 ^ 53)"

section \<open>Properties of the float arithmetic\<close>

lemma pow2_Suc: "(2::rat) powi (k + 1) = 2 * 2 powi k"
  by (simp add: power_int_add)

lemma pow2_pred: "(2::rat) powi (k - 1) = 2 powi k / 2"
  by (simp add: power_int_diff)

lemma pow2_nonneg_exp: "0 \<le> k \<Longrightarrow> (2::rat) powi k = of_int (2 ^ nat k)"
  by (simp add: power_int_nonneg_exp)

lemma ilog2_up_bounds: "1 \<le> x \<Longrightarrow> 2 powi ilog2_up x \<le> x \<and> x < 2 powi (ilog2_up x + 1)"
proof (induction x rule: ilog2_up.induct)
  case (1 x)
  show ?case
  proof (cases "x < 2")
    case True
    then have "ilog2_up x = 0" by (subst ilog2_up.simps) simp
    then show ?thesis using True "1.prems" by simp
  next
    case False
    then have h: "1 \<le> x / 2" by simp
    have eq: "ilog2_up x = ilog2_up (x / 2) + 1" using False by (subst ilog2_up.simps) simp
    from "1.IH" [OF False h]
    have a: "2 powi ilog2_up (x / 2) \<le> x / 2" and b: "x / 2 < 2 powi (ilog2_up (x / 2) + 1)"
      by auto
    have "2 powi (ilog2_up (x / 2) + 1) \<le> x"
      using a by (simp only: pow2_Suc; simp)
    moreover have "x < 2 powi (ilog2_up (x / 2) + 1 + 1)"
      using b by (simp only: pow2_Suc [of "ilog2_up (x / 2) + 1"]; simp)
    ultimately show ?thesis by (simp only: eq)
  qed
qed

lemma ilog2_down_bounds:
  "0 < x \<Longrightarrow> x < 1 \<Longrightarrow> 2 powi ilog2_down x \<le> x \<and> x < 2 powi (ilog2_down x + 1)"
proof (induction x rule: ilog2_down.induct)
  case (1 x)
  have nx: "\<not> (x \<le> 0 \<or> 1 \<le> x)" using "1.prems" by auto
  have eq: "ilog2_down x = ilog2_down (2 * x) - 1" using nx by (subst ilog2_down.simps) simp
  show ?case
  proof (cases "1 \<le> 2 * x")
    case True
    then have "ilog2_down (2 * x) = 0" by (subst ilog2_down.simps) simp
    then show ?thesis using True "1.prems" unfolding eq by simp
  next
    case False
    then have "2 * x < 1" "0 < 2 * x" using "1.prems" by auto
    from "1.IH" [OF nx this(2) this(1)]
    have a: "2 powi ilog2_down (2 * x) \<le> 2 * x" and b: "2 * x < 2 powi (ilog2_down (2 * x) + 1)"
      by auto
    have "2 powi (ilog2_down (2 * x) - 1) \<le> x"
      using a by (simp only: pow2_pred; simp)
    moreover have "x < 2 powi (ilog2_down (2 * x) - 1 + 1)"
      using b by (simp only: pow2_Suc [of "ilog2_down (2 * x)"]; simp)
    ultimately show ?thesis by (simp only: eq)
  qed
qed

lemma ilog2_bounds: "0 < x \<Longrightarrow> 2 powi ilog2 x \<le> x \<and> x < 2 powi (ilog2 x + 1)"
  using ilog2_up_bounds [of x] ilog2_down_bounds [of x] by (simp add: ilog2_def)

lemma ilog2_mono:
  assumes "0 < x" "x \<le> y"
  shows "ilog2 x \<le> ilog2 y"
proof (rule ccontr)
  assume "\<not> ilog2 x \<le> ilog2 y"
  then have "ilog2 y + 1 \<le> ilog2 x" by simp
  then have "(2::rat) powi (ilog2 y + 1) \<le> 2 powi ilog2 x"
    by (intro power_int_increasing) simp_all
  moreover have "2 powi ilog2 x \<le> x" using ilog2_bounds [of x] assms by simp
  moreover have "y < 2 powi (ilog2 y + 1)" using ilog2_bounds [of y] assms by simp
  ultimately show False using assms by linarith
qed

lemma rne_bounds: "\<lfloor>x\<rfloor> \<le> rne x \<and> rne x \<le> \<lfloor>x\<rfloor> + 1"
  by (simp add: rne_def Let_def)

lemma rne_of_int: "rne (of_int n) = n"
  by (simp add: rne_def)

lemma rne_mono:
  assumes "x \<le> y"
  shows "rne x \<le> rne y"
proof (cases "\<lfloor>x\<rfloor> = \<lfloor>y\<rfloor>")
  case True
  then show ?thesis using assms by (auto simp: rne_def Let_def)
next
  case False
  then have "\<lfloor>x\<rfloor> + 1 \<le> \<lfloor>y\<rfloor>" using floor_mono [OF assms] by linarith
  then show ?thesis using rne_bounds [of x] rne_bounds [of y] by linarith
qed

lemma quantum_exp_mono: "0 < x \<Longrightarrow> x \<le> y \<Longrightarrow> quantum_exp x \<le> quantum_exp y"
  using ilog2_mono [of x y] by (simp add: quantum_exp_def)

lemma round_pos_le_grid:
  assumes "0 \<le> k" "x \<le> 2 powi (e + k)"
  shows "of_int (rne (x / 2 powi e)) * 2 powi e \<le> (2::rat) powi (e + k)"
proof -
  have "x / 2 powi e \<le> 2 powi (e + k) / 2 powi e"
    using assms(2) by (simp add: divide_right_mono)
  also have "\<dots> = of_int (2 ^ nat k)"
    using assms(1) by (simp add: power_int_add pow2_nonneg_exp)
  finally have "rne (x / 2 powi e) \<le> 2 ^ nat k"
    using rne_mono rne_of_int by metis
  then have "(of_int (rne (x / 2 powi e)) :: rat) \<le> of_int (2 ^ nat k)"
    by (simp only: of_int_le_iff)
  then have "of_int (rne (x / 2 powi e)) * 2 powi e \<le> of_int (2 ^ nat k) * (2::rat) powi e"
    by (intro mult_right_mono) simp_all
  also have "\<dots> = 2 powi (e + k)"
    using assms(1) by (simp add: power_int_add pow2_nonneg_exp)
  finally show ?thesis .
qed

lemma round_pos_ge_grid:
  assumes "0 \<le> k" "2 powi (e + k) \<le> x"
  shows "(2::rat) powi (e + k) \<le> of_int (rne (x / 2 powi e)) * 2 powi e"
proof -
  have "2 powi (e + k) / 2 powi e \<le> x / 2 powi e"
    using assms(2) by (simp add: divide_right_mono)
  moreover have "2 powi (e + k) / 2 powi e = (of_int (2 ^ nat k) :: rat)"
    using assms(1) by (simp add: power_int_add pow2_nonneg_exp)
  ultimately have "2 ^ nat k \<le> rne (x / 2 powi e)"
    using rne_mono rne_of_int by metis
  then have "(of_int (2 ^ nat k) :: rat) \<le> of_int (rne (x / 2 powi e))"
    by (simp only: of_int_le_iff)
  then have "of_int (2 ^ nat k) * (2::rat) powi e \<le> of_int (rne (x / 2 powi e)) * 2 powi e"
    by (intro mult_right_mono) simp_all
  moreover have "of_int (2 ^ nat k) * (2::rat) powi e = 2 powi (e + k)"
    using assms(1) by (simp add: power_int_add pow2_nonneg_exp)
  ultimately show ?thesis by (simp only:)
qed

lemma round_pos_mono:
  assumes "0 < x" "x \<le> y"
  shows "round_pos x \<le> round_pos y"
proof (cases "quantum_exp x = quantum_exp y")
  case True
  have "x / 2 powi quantum_exp y \<le> y / 2 powi quantum_exp y"
    using assms(2) by (simp add: divide_right_mono)
  then have "(of_int (rne (x / 2 powi quantum_exp y)) :: rat) \<le> of_int (rne (y / 2 powi quantum_exp y))"
    using rne_mono by (simp only: of_int_le_iff)
  then show ?thesis unfolding round_pos_def True by (intro mult_right_mono) simp_all
next
  case False
  define ex where "ex = quantum_exp x"
  define ey where "ey = quantum_exp y"
  have lt: "ex < ey" using False quantum_exp_mono [OF assms] by (simp add: ex_def ey_def)
  have "- 1074 \<le> ex" by (simp add: ex_def quantum_exp_def)
  then have ey: "ey = ilog2 y - 52" using lt by (simp add: ey_def quantum_exp_def)
  have ypos: "0 < y" using assms by linarith
  have lo: "2 powi (ey + 52) \<le> y" using ilog2_bounds [OF ypos] by (simp add: ey)
  have "ilog2 x + 1 \<le> ex + 53" by (simp add: ex_def quantum_exp_def)
  then have "(2::rat) powi (ilog2 x + 1) \<le> 2 powi (ex + 53)"
    by (intro power_int_increasing) simp_all
  moreover have "(2::rat) powi (ex + 53) \<le> 2 powi (ey + 52)"
    using lt by (intro power_int_increasing) simp_all
  ultimately have hi: "x \<le> 2 powi (ey + 52)" using ilog2_bounds [OF assms(1)] by linarith
  have "0 \<le> ey + 52 - ex" using lt by simp
  from round_pos_le_grid [OF this, of x ex] hi
  have "round_pos x \<le> 2 powi (ey + 52)" by (simp add: round_pos_def ex_def)
  moreover from round_pos_ge_grid [of 52 ey y] lo
  have "2 powi (ey + 52) \<le> round_pos y" by (simp add: round_pos_def ey_def)
  ultimately show ?thesis by linarith
qed

lemma round_pos_nonneg: "0 < x \<Longrightarrow> 0 \<le> round_pos x"
proof -
  assume "0 < x"
  then have "0 \<le> x / 2 powi quantum_exp x" by simp
  then have "rne 0 \<le> rne (x / 2 powi quantum_exp x)" by (rule rne_mono)
  then have "0 \<le> rne (x / 2 powi quantum_exp x)" using rne_of_int [of 0] by simp
  then show ?thesis by (simp add: round_pos_def)
qed

lemma round_fin_mono:
  assumes "x \<le> y"
  shows "round_fin x \<le> round_fin y"
proof -
  consider "0 < x" | "y < 0" | "x \<le> 0" "0 \<le> y" by linarith
  then show ?thesis
  proof cases
    case 1
    then show ?thesis using assms round_pos_mono [of x y] by (simp add: round_fin_def)
  next
    case 2
    then show ?thesis using assms round_pos_mono [of "- y" "- x"] by (simp add: round_fin_def)
  next
    case 3
    have "round_fin x \<le> 0" using 3(1) round_pos_nonneg [of "- x"] by (simp add: round_fin_def)
    moreover have "0 \<le> round_fin y" using 3(2) round_pos_nonneg [of y] by (simp add: round_fin_def)
    ultimately show ?thesis by linarith
  qed
qed

text \<open>Rounding never yields a NaN, and keeps the order of what it rounds.\<close>

lemma overflow_threshold_pos: "0 < overflow_threshold"
  by (simp add: overflow_threshold_def)

lemma float_le_PInf: "float_le (round64 x) PInf"
  by (simp add: round64_def Let_def)

lemma float_le_NInf: "float_le NInf (round64 x)"
  by (simp add: round64_def Let_def)

lemma round64_mono: "x \<le> y \<Longrightarrow> float_le (round64 x) (round64 y)"
  using round_fin_mono [of x y] overflow_threshold_pos by (auto simp: round64_def Let_def)

text \<open>Subtracting a larger float from a fixed finite float never gives a larger result.\<close>

lemma float_sub_antitone:
  assumes "float_lt a b"
  shows "float_le (float_sub (Finite x) b) (float_sub (Finite x) a)"
  using assms
  by (cases a; cases b) (simp_all add: float_sub_def round64_mono float_le_PInf float_le_NInf)

text \<open>A value with at most 53 significant bits in the exponent range is rounded to itself.\<close>

lemma ilog2_less:
  assumes "0 < x" "x < 2 powi k"
  shows "ilog2 x < k"
proof (rule ccontr)
  assume "\<not> ilog2 x < k"
  then have "(2::rat) powi k \<le> 2 powi ilog2 x"
    by (intro power_int_increasing) simp_all
  then show False using ilog2_bounds [OF assms(1)] assms(2) by linarith
qed

lemma ilog2_unique:
  assumes "2 powi k \<le> x" "x < 2 powi (k + 1)"
  shows "ilog2 x = k"
proof -
  have pos: "0 < x" using assms(1) zero_less_power_int [of "2::rat" k] by linarith
  have "ilog2 x < k + 1" using ilog2_less [OF pos assms(2)] .
  moreover have "k \<le> ilog2 x"
  proof (rule ccontr)
    assume "\<not> k \<le> ilog2 x"
    then have "(2::rat) powi (ilog2 x + 1) \<le> 2 powi k"
      by (intro power_int_increasing) simp_all
    then show False using ilog2_bounds [OF pos] assms(1) by linarith
  qed
  ultimately show ?thesis by linarith
qed

lemma rne_nearest:
  assumes "of_int n - 1 / 2 < x" "x < of_int n + 1 / 2"
  shows "rne x = n"
proof -
  have "\<lfloor>x\<rfloor> = n \<or> \<lfloor>x\<rfloor> = n - 1" using assms by linarith
  then show ?thesis using assms by (auto simp: rne_def Let_def)
qed

lemma round_pos_exact:
  assumes "0 < m" "m < 2 ^ 53" "- 1074 \<le> e"
  shows "round_pos (of_int m * 2 powi e) = of_int m * 2 powi e"
proof -
  define x :: rat where "x = of_int m * 2 powi e"
  define qe where "qe = quantum_exp x"
  have pos: "0 < x" using assms(1) by (simp add: x_def)
  have "(of_int m :: rat) < of_int (2 ^ 53)" using assms(2) by (simp only: of_int_less_iff)
  then have "x < of_int (2 ^ 53) * 2 powi e"
    unfolding x_def by (intro mult_strict_right_mono) simp_all
  also have "\<dots> = 2 powi (53 + e)" by (simp add: power_int_add)
  finally have "ilog2 x < 53 + e" using ilog2_less [OF pos] by simp
  then have qe: "qe \<le> e" using assms(3) by (simp add: qe_def quantum_exp_def)
  have "(2::rat) powi e = 2 powi (qe + (e - qe))" by simp
  also have "\<dots> = 2 powi qe * 2 powi (e - qe)" by (rule power_int_add) simp
  also have "\<dots> = 2 powi qe * of_int (2 ^ nat (e - qe))"
    using qe by (simp add: pow2_nonneg_exp)
  finally have split: "(2::rat) powi e = 2 powi qe * of_int (2 ^ nat (e - qe))" .
  have "x / 2 powi qe = of_int (m * 2 ^ nat (e - qe))"
    by (simp add: x_def split)
  then have "rne (x / 2 powi qe) = m * 2 ^ nat (e - qe)"
    by (simp only: rne_of_int)
  then have "round_pos x = of_int (m * 2 ^ nat (e - qe)) * 2 powi qe"
    by (simp add: round_pos_def qe_def)
  also have "\<dots> = x" by (simp add: x_def split)
  finally show ?thesis by (simp add: x_def)
qed

lemma round64_exact:
  assumes "\<bar>m\<bar> < 2 ^ 53" "- 1074 \<le> e" "e \<le> 971"
  shows "round64 (of_int m * 2 powi e) = Finite (of_int m * 2 powi e)"
proof -
  define x :: rat where "x = of_int m * 2 powi e"
  have fin: "round_fin x = x"
  proof -
    consider "m = 0" | "0 < m" | "m < 0" by linarith
    then show ?thesis
    proof cases
      case 1
      then show ?thesis by (simp add: x_def round_fin_def)
    next
      case 2
      then have "0 < x" by (simp add: x_def)
      then show ?thesis
        using round_pos_exact [of m e] 2 assms by (simp add: round_fin_def x_def)
    next
      case 3
      then have "x < 0" by (simp add: x_def mult_neg_pos)
      moreover have "- x = of_int (- m) * 2 powi e" by (simp add: x_def)
      ultimately show ?thesis
        using round_pos_exact [of "- m" e] 3 assms by (simp add: round_fin_def)
    qed
  qed
  have "(of_int \<bar>m\<bar> :: rat) < of_int (2 ^ 53)" using assms(1) by (simp only: of_int_less_iff)
  moreover have "(2::rat) powi e \<le> 2 powi 971"
    using assms(3) by (intro power_int_increasing) simp_all
  ultimately have "of_int \<bar>m\<bar> * 2 powi e < of_int (2 ^ 53) * (2::rat) powi 971"
    by (intro mult_less_le_imp_less) simp_all
  also have "\<dots> = overflow_threshold"
    by (simp add: overflow_threshold_def)
  finally have "\<bar>x\<bar> < overflow_threshold"
    by (simp add: x_def abs_mult)
  then have "\<not> overflow_threshold \<le> x" "\<not> x \<le> - overflow_threshold"
    by (simp_all add: abs_less_iff)
  then show ?thesis using fin by (simp add: round64_def Let_def x_def [symmetric])
qed

lemma round64_examples:
  "round64 0 = Finite 0"
  "round64 1 = Finite 1"
  "round64 2 = Finite 2"
  "round64 (1 / 2) = Finite (1 / 2)"
  "round64 (1 / 4) = Finite (1 / 4)"
  "round64 (3 / 4) = Finite (3 / 4)"
  using round64_exact [of 0 0] round64_exact [of 1 0] round64_exact [of 1 1]
    round64_exact [of 1 "- 1"] round64_exact [of 1 "- 2"] round64_exact [of 3 "- 2"]
  by simp_all

text \<open>A value just below one, with 60 significant bits, is rounded up to one.\<close>

lemma round64_below_one: "round64 (1 - 1 / 2 ^ 60) = Finite 1"
proof -
  define x :: rat where "x = 1 - 1 / 2 ^ 60"
  have "ilog2 x = - 1" by (rule ilog2_unique) (simp_all add: x_def)
  then have qe: "quantum_exp x = - 53" by (simp add: quantum_exp_def)
  have "rne (x / 2 powi (- 53)) = 2 ^ 53"
    by (rule rne_nearest) (simp_all add: x_def)
  then have "round_pos x = 1" by (simp add: round_pos_def qe)
  moreover have "0 < x" by (simp add: x_def)
  ultimately have "round_fin x = 1" by (simp add: round_fin_def)
  then show ?thesis
    unfolding x_def [symmetric] by (simp add: round64_def Let_def overflow_threshold_def)
qed

section \<open>Properties of the float sum\<close>

text \<open>Rounding is symmetric around zero.\<close>

lemma round_fin_neg: "round_fin (- x) = - round_fin x"
  by (cases "x = 0"; cases "0 < x") (auto simp: round_fin_def)

lemma round64_neg: "round64 (- x) = float_neg (round64 x)"
  using overflow_threshold_pos by (auto simp: round64_def Let_def round_fin_neg)

lemma is_binary64_neg: "is_binary64 q \<Longrightarrow> is_binary64 (- q)"
  by (simp add: is_binary64_def round64_neg)

lemma is_binary64_0: "is_binary64 0"
  by (simp add: is_binary64_def round64_examples)

text \<open>An addition whose exact result is a binary64 value does not round.\<close>

lemma float_add_exact: "is_binary64 (p + q) \<Longrightarrow> float_add (Finite p) (Finite q) = Finite (p + q)"
  by (simp add: is_binary64_def)

text \<open>
  When every partial sum is a binary64 value, the plain sum is the exact sum of the numbers.
\<close>

lemma foldl_float_add_exact:
  assumes "\<forall>k\<le>length qs. is_binary64 (a + sum_list (take k qs))"
  shows "foldl float_add (Finite a) (map Finite qs) = Finite (a + sum_list qs)"
  using assms
proof (induction qs arbitrary: a)
  case Nil
  then show ?case by simp
next
  case (Cons q qs)
  have "is_binary64 (a + sum_list (take (Suc 0) (q # qs)))"
    using Cons.prems by (intro Cons.prems [rule_format]) simp
  then have "is_binary64 (a + q)" by simp
  then have step: "float_add (Finite a) (Finite q) = Finite (a + q)"
    by (rule float_add_exact)
  have "\<forall>k\<le>length qs. is_binary64 ((a + q) + sum_list (take k qs))"
  proof (intro allI impI)
    fix k assume "k \<le> length qs"
    then have "is_binary64 (a + sum_list (take (Suc k) (q # qs)))"
      by (intro Cons.prems [rule_format]) simp
    then show "is_binary64 ((a + q) + sum_list (take k qs))" by (simp add: add.assoc)
  qed
  then have "foldl float_add (Finite (a + q)) (map Finite qs) = Finite ((a + q) + sum_list qs)"
    by (rule Cons.IH)
  then show ?case by (simp only: list.map foldl_Cons step sum_list.Cons add.assoc)
qed

text \<open>
  One compensated step whose addition does not round leaves the compensation at zero.
\<close>

lemma compensated_step_exact:
  assumes "is_binary64 a" "is_binary64 q" "is_binary64 (a + q)"
  shows "compensated_step (Finite a, Finite 0) (Finite q) = (Finite (a + q), Finite 0)"
proof -
  have t: "float_add (Finite a) (Finite q) = Finite (a + q)"
    using assms(3) by (rule float_add_exact)
  have "round64 (- q) = Finite (- q)" "round64 (- a) = Finite (- a)"
    using is_binary64_neg [OF assms(2)] is_binary64_neg [OF assms(1)]
    by (simp_all add: is_binary64_def)
  then have c1: "float_add (float_sub (Finite a) (Finite (a + q))) (Finite q) = Finite 0"
    and c2: "float_add (float_sub (Finite q) (Finite (a + q))) (Finite a) = Finite 0"
    by (simp_all add: float_sub_def round64_examples)
  show ?thesis
    by (simp only: compensated_step_def Let_def fst_conv snd_conv t c1 c2)
      (simp add: round64_examples)
qed

lemma foldl_compensated_step_exact:
  assumes "is_binary64 a" "list_all is_binary64 qs"
    and "\<forall>k\<le>length qs. is_binary64 (a + sum_list (take k qs))"
  shows "foldl compensated_step (Finite a, Finite 0) (map Finite qs) =
           (Finite (a + sum_list qs), Finite 0)"
  using assms
proof (induction qs arbitrary: a)
  case Nil
  then show ?case by simp
next
  case (Cons q qs)
  have "is_binary64 (a + sum_list (take (Suc 0) (q # qs)))"
    by (intro Cons.prems(3) [rule_format]) simp
  then have aq: "is_binary64 (a + q)" by simp
  have q: "is_binary64 q" and qs: "list_all is_binary64 qs" using Cons.prems(2) by simp_all
  have step: "compensated_step (Finite a, Finite 0) (Finite q) = (Finite (a + q), Finite 0)"
    using Cons.prems(1) q aq by (rule compensated_step_exact)
  have "\<forall>k\<le>length qs. is_binary64 ((a + q) + sum_list (take k qs))"
  proof (intro allI impI)
    fix k assume "k \<le> length qs"
    then have "is_binary64 (a + sum_list (take (Suc k) (q # qs)))"
      by (intro Cons.prems(3) [rule_format]) simp
    then show "is_binary64 ((a + q) + sum_list (take k qs))" by (simp add: add.assoc)
  qed
  with aq qs have "foldl compensated_step (Finite (a + q), Finite 0) (map Finite qs) =
      (Finite ((a + q) + sum_list qs), Finite 0)"
    by (rule Cons.IH)
  then show ?case by (simp add: step add.assoc)
qed

text \<open>
  Numbers that add up exactly have their exact sum as float sum, however the interpreter
  sums.
\<close>

lemma adds_exactly_partial_sums:
  assumes "adds_exactly qs" "k \<le> length qs"
  shows "is_binary64 (sum_list (take k qs))"
  using assms by (cases "k = length qs") (auto simp: adds_exactly_def list_all_iff)

lemma py_sum_exact:
  assumes "adds_exactly qs"
  shows "py_sum how (map Finite qs) = Finite (sum_list qs)"
proof (cases how)
  case Plain
  have "\<forall>k\<le>length qs. is_binary64 (0 + sum_list (take k qs))"
    using adds_exactly_partial_sums [OF assms] by simp
  from foldl_float_add_exact [OF this] show ?thesis
    by (simp add: Plain py_sum_plain_def)
next
  case Compensated
  show ?thesis
  proof (cases qs)
    case Nil
    then show ?thesis by (simp add: Compensated py_sum_compensated_def)
  next
    case (Cons q rest)
    have all: "list_all is_binary64 (q # rest)" using assms by (simp add: adds_exactly_def Cons)
    then have q: "is_binary64 q" and rest: "list_all is_binary64 rest" by simp_all
    have first: "round64 q = Finite q"
      using q by (simp add: is_binary64_def)
    have "\<forall>k\<le>length rest. is_binary64 (q + sum_list (take k rest))"
    proof (intro allI impI)
      fix k assume "k \<le> length rest"
      then have "is_binary64 (sum_list (take (Suc k) qs))"
        by (intro adds_exactly_partial_sums [OF assms]) (simp add: Cons)
      then show "is_binary64 (q + sum_list (take k rest))" by (simp add: Cons)
    qed
    from foldl_compensated_step_exact [OF q rest this] show ?thesis
      by (simp add: Compensated py_sum_compensated_def Cons first Let_def)
  qed
qed

text \<open>A number of scores below \<open>2^53\<close> is converted to a float without rounding.\<close>

lemma round64_of_nat: "n < 2 ^ 53 \<Longrightarrow> round64 (of_nat n) = Finite (of_nat n)"
  using round64_exact [of "int n" 0] by simp

text \<open>
  The computed mean of scores that add up exactly is their arithmetic mean, rounded once.
\<close>

lemma computed_mean_exact:
  assumes "adds_exactly qs" "length qs < 2 ^ 53"
  shows "computed_mean how (map Finite qs) = round64 (exact_mean qs)"
  using assms by (simp add: computed_mean_def py_sum_exact round64_of_nat exact_mean_def)

text \<open>Values on which the rounding of the sum and of the quotient shows.\<close>

lemma rne_tie_even: "even n \<Longrightarrow> rne (of_int n + 1 / 2) = n"
proof -
  assume n: "even n"
  have "\<lfloor>(of_int n :: rat) + 1 / 2\<rfloor> = n" by linarith
  then show ?thesis using n by (simp add: rne_def Let_def)
qed

lemma round64_tie_above_one: "round64 (1 + 1 / 2 ^ 53) = Finite 1"
proof -
  define x :: rat where "x = 1 + 1 / 2 ^ 53"
  have "ilog2 x = 0" by (rule ilog2_unique) (simp_all add: x_def)
  then have qe: "quantum_exp x = - 52" by (simp add: quantum_exp_def)
  have e: "x / 2 powi (- 52) = of_int (2 ^ 52) + 1 / 2" by (simp add: x_def)
  have "rne (of_int (2 ^ 52) + 1 / 2) = 2 ^ 52" by (rule rne_tie_even) simp
  then have "rne (x / 2 powi (- 52)) = 2 ^ 52" by (simp only: e)
  then have "round_pos x = 1" by (simp add: round_pos_def qe)
  moreover have "0 < x" by (simp add: x_def)
  ultimately have "round_fin x = 1" by (simp add: round_fin_def)
  then show ?thesis
    unfolding x_def [symmetric] by (simp add: round64_def Let_def overflow_threshold_def)
qed

lemma round64_third: "round64 (1 / 3) = Finite (6004799503160661 / 2 ^ 54)"
proof -
  define x :: rat where "x = 1 / 3"
  have "ilog2 x = - 2" by (rule ilog2_unique) (simp_all add: x_def)
  then have qe: "quantum_exp x = - 54" by (simp add: quantum_exp_def)
  have "rne (x / 2 powi (- 54)) = 6004799503160661"
    by (rule rne_nearest) (simp_all add: x_def)
  then have "round_pos x = 6004799503160661 / 2 ^ 54" by (simp add: round_pos_def qe)
  moreover have "0 < x" by (simp add: x_def)
  ultimately have "round_fin x = 6004799503160661 / 2 ^ 54" by (simp add: round_fin_def)
  then show ?thesis
    unfolding x_def [symmetric] by (simp add: round64_def Let_def overflow_threshold_def)
qed

lemma round64_third_above: "round64 ((1 + 1 / 2 ^ 52) / 3) = Finite (6004799503160663 / 2 ^ 54)"
proof -
  define x :: rat where "x = (1 + 1 / 2 ^ 52) / 3"
  have "ilog2 x = - 2" by (rule ilog2_unique) (simp_all add: x_def)
  then have qe: "quantum_exp x = - 54" by (simp add: quantum_exp_def)
  have "rne (x / 2 powi (- 54)) = 6004799503160663"
    by (rule rne_nearest) (simp_all add: x_def)
  then have "round_pos x = 6004799503160663 / 2 ^ 54" by (simp add: round_pos_def qe)
  moreover have "0 < x" by (simp add: x_def)
  ultimately have "round_fin x = 6004799503160663 / 2 ^ 54" by (simp add: round_fin_def)
  then show ?thesis
    unfolding x_def [symmetric] by (simp add: round64_def Let_def overflow_threshold_def)
qed

lemma round64_small_examples:
  "round64 (1 / 2 ^ 53) = Finite (1 / 2 ^ 53)"
  "round64 (1 / 2 ^ 52) = Finite (1 / 2 ^ 52)"
  "round64 (1 + 1 / 2 ^ 52) = Finite (1 + 1 / 2 ^ 52)"
  "round64 (1 - 1 / 2 ^ 53) = Finite (1 - 1 / 2 ^ 53)"
  "round64 3 = Finite 3"
  using round64_exact [of 1 "- 53"] round64_exact [of 1 "- 52"]
    round64_exact [of "2 ^ 52 + 1" "- 52"] round64_exact [of "2 ^ 53 - 1" "- 53"]
    round64_exact [of 3 0]
  by (simp_all add: power_int_minus field_simps)

lemmas rounding_values =
  round64_tie_above_one [simplified] round64_third [simplified]
  round64_third_above [simplified] round64_small_examples [simplified]

text \<open>
  The scores \<open>1\<close>, \<open>2^-53\<close>, \<open>2^-53\<close>: the plain sum loses both small scores, the compensated
  sum keeps them, and the quotients differ.
\<close>

lemma py_sum_rounding_examples:
  "py_sum Plain [Finite 1, Finite (1 / 2 ^ 53), Finite (1 / 2 ^ 53)] = Finite 1"
  "py_sum Compensated [Finite 1, Finite (1 / 2 ^ 53), Finite (1 / 2 ^ 53)] = Finite (1 + 1 / 2 ^ 52)"
  by (simp_all add: py_sum_plain_def py_sum_compensated_def compensated_step_def float_sub_def
      Let_def rounding_values round64_examples)

lemma computed_mean_rounding_examples:
  "computed_mean Plain [Finite 1, Finite (1 / 2 ^ 53), Finite (1 / 2 ^ 53)] =
     Finite (6004799503160661 / 2 ^ 54)"
  "computed_mean Compensated [Finite 1, Finite (1 / 2 ^ 53), Finite (1 / 2 ^ 53)] =
     Finite (6004799503160663 / 2 ^ 54)"
  using py_sum_rounding_examples
  by (simp_all add: computed_mean_def rounding_values)

section \<open>What each function returns\<close>

lemma get_or_create_collection_fst:
  "fst (get_or_create_collection env c w) =
     (case client_error env c of Some e \<Rightarrow> Inl e | None \<Rightarrow> Inr c)"
  by (simp add: get_or_create_collection_def split: option.splits)

lemma get_or_create_collection_trace:
  "gen_trace (snd (get_or_create_collection env c w)) = gen_trace w"
  by (simp add: get_or_create_collection_def split: option.splits)

lemma get_or_create_collection_contents:
  "collection_contents (snd (get_or_create_collection env c w)) c' = collection_contents w c'"
  by (simp add: get_or_create_collection_def collection_contents_def split: option.splits)

lemma query_similar_chunks_fst:
  "fst (query_similar_chunks env q k c w) =
     (case client_error env c of
        Some e \<Rightarrow> Inl e
      | None \<Rightarrow>
         (case sentence_transformer_error env of
            Some e \<Rightarrow> Inl e
          | None \<Rightarrow>
             (case query_try env q k (collection_contents w c) of
                Inl e \<Rightarrow> Inr []
              | Inr out \<Rightarrow> Inr out)))"
proof (cases "get_or_create_collection env c w")
  case (Pair r w1)
  have r: "r = (case client_error env c of Some e \<Rightarrow> Inl e | None \<Rightarrow> Inr c)"
    using get_or_create_collection_fst [of env c w] Pair by simp
  have "collection_contents w1 c = collection_contents w c"
    using get_or_create_collection_contents [of env c w c] Pair by simp
  then show ?thesis
    using Pair r
    by (simp add: query_similar_chunks_def load_embedding_model_def
        split: option.splits sum.splits)
qed

lemma query_similar_chunks_trace:
  "gen_trace (snd (query_similar_chunks env q k c w)) = gen_trace w"
proof (cases "get_or_create_collection env c w")
  case (Pair r w1)
  have "gen_trace w1 = gen_trace w"
    using get_or_create_collection_trace [of env c w] Pair by simp
  then show ?thesis
    using Pair by (simp add: query_similar_chunks_def split: option.splits sum.splits)
qed

lemma generate_try_fst:
  "fst (generate_try env q ctx m n w) =
     (case load_llm_error env m of
        Some e \<Rightarrow> Inl e
      | None \<Rightarrow>
         (case pipe env m (format_prompt q ctx) n of
            Inl e \<Rightarrow> Inl e
          | Inr result \<Rightarrow>
             (case index0 result of Inl e \<Rightarrow> Inl e | Inr t \<Rightarrow> Inr (strip t))))"
  by (simp add: generate_try_def Let_def split: option.splits sum.splits)

lemma generate_try_trace:
  "gen_trace (snd (generate_try env q ctx m n w)) =
     gen_trace w @ LoadLLM m #
       (case load_llm_error env m of None \<Rightarrow> [Pipe m (format_prompt q ctx) n] | Some e \<Rightarrow> [])"
  by (simp add: generate_try_def Let_def split: option.splits sum.splits)

lemma generate_answer_fst:
  "fst (generate_answer env q ctx m n w) =
     Inr (case fst (generate_try env q ctx m n w) of Inl e \<Rightarrow> None | Inr t \<Rightarrow> Some t)"
  by (cases "generate_try env q ctx m n w")
    (simp add: generate_answer_def split: sum.splits)

lemma generate_answer_snd:
  "snd (generate_answer env q ctx m n w) = snd (generate_try env q ctx m n w)"
  by (cases "generate_try env q ctx m n w")
    (simp add: generate_answer_def split: sum.splits)

lemma compute_confidence_nonempty:
  "xs \<noteq> [] \<Longrightarrow> compute_confidence how xs = Inr (computed_mean how xs)"
  by (simp add: compute_confidence_def float_truediv_int_def computed_mean_def)

lemma answer_try_eq:
  "answer_try env q k c m w =
     (case query_similar_chunks env q k c w of
        (Inl e, w1) \<Rightarrow> (Inl e, w1)
      | (Inr retrieved, w1) \<Rightarrow>
         if retrieved = [] then (Inr no_context_result, w1)
         else
           (Inr \<lparr>answer =
                   (case fst (generate_try env q (str_join [NL, NL] (map chunk retrieved)) m 256 w1) of
                      Inl e \<Rightarrow> None | Inr t \<Rightarrow> Some t),
                 sources = map source_of retrieved,
                 confidence = computed_mean (summation env) (map score retrieved),
                 chunks = retrieved, error = None\<rparr>,
            snd (generate_try env q (str_join [NL, NL] (map chunk retrieved)) m 256 w1)))"
proof (cases "query_similar_chunks env q k c w")
  case (Pair r w1)
  show ?thesis
  proof (cases r)
    case (Inl e)
    then show ?thesis using Pair by (simp add: answer_try_def)
  next
    case (Inr retrieved)
    show ?thesis
    proof (cases "retrieved = []")
      case True
      then show ?thesis using Pair Inr by (simp add: answer_try_def)
    next
      case False
      let ?ctx = "str_join [NL, NL] (map chunk retrieved)"
      obtain a w2 where g: "generate_answer env q ?ctx m 256 w1 = (a, w2)"
        by (cases "generate_answer env q ?ctx m 256 w1")
      have a: "a = Inr (case fst (generate_try env q ?ctx m 256 w1) of Inl e \<Rightarrow> None | Inr t \<Rightarrow> Some t)"
        using generate_answer_fst [of env q ?ctx m 256 w1] g by simp
      have w2: "w2 = snd (generate_try env q ?ctx m 256 w1)"
        using generate_answer_snd [of env q ?ctx m 256 w1] g by simp
      show ?thesis
        using Pair Inr False g a w2
        by (simp add: answer_try_def Let_def compute_confidence_nonempty)
    qed
  qed
qed

lemma answer_question_fst:
  "fst (answer_question env q k c m w) =
     (case fst (query_similar_chunks env q k c w) of
        Inl e \<Rightarrow> Inr (failure_result e)
      | Inr retrieved \<Rightarrow>
         if retrieved = [] then Inr no_context_result
         else
           Inr \<lparr>answer =
                  (case fst (generate_try env q (str_join [NL, NL] (map chunk retrieved)) m 256
                               (snd (query_similar_chunks env q k c w))) of
                     Inl e \<Rightarrow> None | Inr t \<Rightarrow> Some t),
                sources = map source_of retrieved,
                confidence = computed_mean (summation env) (map score retrieved),
                chunks = retrieved, error = None\<rparr>)"
  by (cases "query_similar_chunks env q k c w")
    (simp add: answer_question_def answer_try_eq split: sum.splits)


lemma str_join_Cons: "str_join sep (x # xs) = x @ concat (map (\<lambda>y. sep @ y) xs)"
  by (induction xs arbitrary: x) simp_all

lemma str_join_eq:
  "xs \<noteq> [] \<Longrightarrow> str_join sep (map f xs) = f (hd xs) @ concat (map (\<lambda>y. sep @ f y) (tl xs))"
  by (cases xs) (simp_all add: str_join_Cons comp_def)

lemma format_results_length:
  "length (format_results docs dists metas) = min (length docs) (min (length dists) (length metas))"
  by (simp add: format_results_def)

lemma format_results_nth:
  assumes "i < length (format_results docs dists metas)"
  shows "format_results docs dists metas ! i =
           \<lparr>chunk = docs ! i, score = float_sub (Finite 1) (dists ! i), metadata = metas ! i\<rparr>"
  using assms by (simp add: format_results_def)

section \<open>Deterministic ids and the stored collection\<close>

lemma digit_char_code:
  assumes "d < 10"
  shows "of_char (digit_char d) = 48 + d"
proof -
  have "of_char (digit_char d) = (48 + d) mod 256"
    unfolding digit_char_def by (rule of_char_of)
  also have "\<dots> = 48 + d" using assms by (intro mod_less) linarith
  finally show ?thesis .
qed

lemma digit_char_inj:
  assumes "a < 10" "b < 10" "digit_char a = digit_char b"
  shows "a = b"
proof -
  have "48 + a = (of_char (digit_char a) :: nat)"
    using digit_char_code [OF assms(1)] by (rule sym)
  also have "\<dots> = of_char (digit_char b)" by (simp only: assms(3))
  also have "\<dots> = 48 + b" by (rule digit_char_code [OF assms(2)])
  finally show ?thesis by linarith
qed

lemma digit_char_not_underscore: "d < 10 \<Longrightarrow> digit_char d \<noteq> CHR ''_''"
proof
  assume d: "d < 10" and eq: "digit_char d = CHR ''_''"
  have "(of_char (CHR ''_'') :: nat) = of_char (digit_char d)" by (simp only: eq)
  also have "\<dots> = 48 + d" by (rule digit_char_code [OF d])
  finally have "(of_char (CHR ''_'') :: nat) = 48 + d" .
  moreover have "(of_char (CHR ''_'') :: nat) = 95" by simp
  ultimately show False using d by linarith
qed

lemma str_nat_small: "n < 10 \<Longrightarrow> str_nat n = [digit_char n]"
  by (subst str_nat.simps) simp

lemma str_nat_large: "\<not> n < 10 \<Longrightarrow> str_nat n = str_nat (n div 10) @ [digit_char (n mod 10)]"
  by (subst str_nat.simps) simp

lemma str_nat_nonempty: "str_nat n \<noteq> []"
  by (cases "n < 10") (simp_all add: str_nat_small str_nat_large)

lemma underscore_notin_str_nat: "CHR ''_'' \<notin> set (str_nat n)"
proof (induction n rule: str_nat.induct)
  case (1 n)
  show ?case
  proof (cases "n < 10")
    case True
    then show ?thesis using digit_char_not_underscore [of n] by (auto simp: str_nat_small)
  next
    case False
    then show ?thesis
      using "1.IH" digit_char_not_underscore [of "n mod 10"] by (auto simp: str_nat_large)
  qed
qed

lemma str_nat_inj: "str_nat m = str_nat n \<Longrightarrow> m = n"
proof (induction m arbitrary: n rule: str_nat.induct)
  case (1 m)
  show ?case
  proof (cases "m < 10")
    case m: True
    show ?thesis
    proof (cases "n < 10")
      case True
      then have "digit_char m = digit_char n"
        using m "1.prems" by (simp add: str_nat_small)
      then show ?thesis by (rule digit_char_inj [OF m True])
    next
      case False
      then show ?thesis
        using m "1.prems" str_nat_nonempty [of "n div 10"]
        by (simp add: str_nat_small str_nat_large)
    qed
  next
    case m: False
    show ?thesis
    proof (cases "n < 10")
      case True
      then have "str_nat (m div 10) @ [digit_char (m mod 10)] = [digit_char n]"
        using m "1.prems" by (simp add: str_nat_small str_nat_large)
      then show ?thesis using str_nat_nonempty [of "m div 10"] by (simp add: append_eq_Cons_conv)
    next
      case False
      then have s: "str_nat (m div 10) = str_nat (n div 10)"
        and d: "digit_char (m mod 10) = digit_char (n mod 10)"
        using m "1.prems" by (simp_all add: str_nat_large)
      have e1: "m div 10 = n div 10" using s by (rule "1.IH" [OF m])
      have e2: "m mod 10 = n mod 10" by (rule digit_char_inj [OF _ _ d]) simp_all
      have "m = m div 10 * 10 + m mod 10" by (rule div_mult_mod_eq [symmetric])
      also have "\<dots> = n div 10 * 10 + n mod 10" by (simp only: e1 e2)
      also have "\<dots> = n" by (rule div_mult_mod_eq)
      finally show ?thesis .
    qed
  qed
qed

lemma last_separator_unique:
  "c \<notin> set ys \<Longrightarrow> c \<notin> set ys' \<Longrightarrow> xs @ c # ys = xs' @ c # ys' \<Longrightarrow> xs = xs' \<and> ys = ys'"
proof (induction xs arbitrary: xs')
  case Nil
  then show ?case by (cases xs') auto
next
  case (Cons x xs)
  show ?case
  proof (cases xs')
    case Nil
    then show ?thesis using Cons.prems by auto
  next
    case (Cons a as)
    then show ?thesis using Cons.IH [of as] Cons.prems by auto
  qed
qed

text \<open>Two chunks have the same id only if they are the same chunk of the same source.\<close>

lemma chunk_id_inj: "(chunk_id s i = chunk_id t j) = (s = t \<and> i = j)"
proof
  assume "chunk_id s i = chunk_id t j"
  then have "s @ CHR ''_'' # str_nat i = t @ CHR ''_'' # str_nat j"
    by (simp add: chunk_id_def)
  then have "s = t \<and> str_nat i = str_nat j"
    by (intro last_separator_unique [of "CHR ''_''"]) (simp_all add: underscore_notin_str_nat)
  then show "s = t \<and> i = j" using str_nat_inj by blast
qed simp

lemma distinct_chunk_ids: "distinct (map (chunk_id s) [0..<n])"
  by (simp add: distinct_map inj_on_def chunk_id_inj)

lemma keys_upsert_all: "set (map fst (upsert_all kvs c)) = set (map fst kvs) \<union> set (map fst c)"
proof (induction kvs arbitrary: c)
  case Nil
  show ?case by simp
next
  case (Cons kv kvs)
  obtain k v where kv: "kv = (k, v)" by (cases kv)
  show ?case using Cons.IH [of "AList.update k v c"] AList.dom_update [of k v c]
    by (auto simp: kv)
qed

lemma upsert_all_present:
  "set (map fst kvs) \<subseteq> set (map fst c) \<Longrightarrow> map fst (upsert_all kvs c) = map fst c"
proof (induction kvs arbitrary: c)
  case Nil
  show ?case by simp
next
  case (Cons kv kvs)
  obtain k v where kv: "kv = (k, v)" by (cases kv)
  have "map fst (AList.update k v c) = map fst c"
    using Cons.prems by (simp add: kv AList.update_keys)
  then show ?case using Cons.IH [of "AList.update k v c"] Cons.prems by (simp add: kv)
qed

lemma distinct_upsert_all:
  "distinct (map fst c) \<Longrightarrow> distinct (map fst (upsert_all kvs c))"
proof (induction kvs arbitrary: c)
  case Nil
  then show ?case by simp
next
  case (Cons kv kvs)
  obtain k v where kv: "kv = (k, v)" by (cases kv)
  show ?case using Cons.IH [of "AList.update k v c"] Cons.prems
    by (simp add: kv AList.distinct_update)
qed

lemma map_of_upsert_all_other:
  "k \<notin> set (map fst kvs) \<Longrightarrow> map_of (upsert_all kvs c) k = map_of c k"
proof (induction kvs arbitrary: c)
  case Nil
  show ?case by simp
next
  case (Cons kv kvs)
  obtain k' v where kv: "kv = (k', v)" by (cases kv)
  show ?case using Cons.IH [of "AList.update k' v c"] Cons.prems
    by (simp add: kv AList.update_conv')
qed

lemma map_of_upsert_all_written:
  "distinct (map fst kvs) \<Longrightarrow> (k, v) \<in> set kvs \<Longrightarrow> map_of (upsert_all kvs c) k = Some v"
proof (induction kvs arbitrary: c)
  case Nil
  then show ?case by simp
next
  case (Cons kv kvs)
  obtain k' v' where kv: "kv = (k', v')" by (cases kv)
  show ?case
  proof (cases "(k, v) \<in> set kvs")
    case True
    then show ?thesis using Cons.IH [of "AList.update k' v' c"] Cons.prems by (simp add: kv)
  next
    case False
    then have e: "k' = k" "v' = v" using Cons.prems by (simp_all add: kv)
    have "k \<notin> set (map fst kvs)" using Cons.prems by (simp add: kv e)
    then show ?thesis
      using map_of_upsert_all_other [of k kvs "AList.update k v c"]
      by (simp add: kv e AList.update_conv')
  qed
qed

lemma only_entry_of_key:
  "distinct (map fst al) \<Longrightarrow> map_of al k = Some v \<Longrightarrow> filter (\<lambda>p. fst p = k) al = [(k, v)]"
proof (induction al)
  case Nil
  then show ?case by simp
next
  case (Cons p al)
  show ?case
  proof (cases "fst p = k")
    case True
    then have "k \<notin> fst ` set al" using Cons.prems by auto
    then have "filter (\<lambda>p. fst p = k) al = []" by (auto simp: filter_empty_conv)
    then show ?thesis using True Cons.prems by (cases p) simp
  next
    case False
    then show ?thesis using Cons by simp
  qed
qed

lemma length_stored_vectors:
  "length (stored_vectors es cs ms) = min (length es) (min (length cs) (length ms))"
  by (simp add: stored_vectors_def)

lemma nth_stored_vectors:
  "i < length (stored_vectors es cs ms) \<Longrightarrow>
     stored_vectors es cs ms ! i = \<lparr>sv_embedding = es ! i, sv_document = cs ! i, sv_metadata = ms ! i\<rparr>"
  by (simp add: stored_vectors_def)

lemma store_embeddings_eq:
  assumes "client_error env cname = None" "length es = length cs"
  shows "store_embeddings env es cs src cname w =
           (Inr (), w\<lparr>db := (db w)(cname \<mapsto> upsert_all (written es cs src) (collection_contents w cname))\<rparr>)"
  using assms
  by (simp add: store_embeddings_def get_or_create_collection_def collection_add_def
      collection_contents_def written_def Let_def split: option.splits)

lemma written_keys: "length es = length cs \<Longrightarrow> map fst (written es cs src) = map (chunk_id src) [0..<length cs]"
  by (simp add: written_def length_stored_vectors)

lemma written_nth:
  assumes "length es = length cs" "i < length cs"
  shows "(chunk_id src i,
          \<lparr>sv_embedding = es ! i, sv_document = cs ! i, sv_metadata = chunk_metadata src i\<rparr>)
         \<in> set (written es cs src)"
proof -
  have "i < length (written es cs src)"
    using assms by (simp add: written_def length_stored_vectors)
  moreover have "written es cs src ! i =
      (chunk_id src i, \<lparr>sv_embedding = es ! i, sv_document = cs ! i, sv_metadata = chunk_metadata src i\<rparr>)"
    using assms by (simp add: written_def length_stored_vectors nth_stored_vectors)
  ultimately show ?thesis by (metis nth_mem)
qed

section \<open>Evaluating the samples\<close>

lemma float_examples:
  "float_sub (Finite 1) (Finite 0) = Finite 1"
  "float_sub (Finite 1) (Finite (1 / 4)) = Finite (3 / 4)"
  "float_sub (Finite 1) (Finite (3 / 4)) = Finite (1 / 4)"
  "computed_mean Plain [Finite (3 / 4)] = Finite (3 / 4)"
  "computed_mean Plain [Finite (3 / 4), Finite (1 / 4)] = Finite (1 / 2)"
  by (simp_all add: float_sub_def computed_mean_def py_sum_plain_def round64_examples)

lemma summation_sample_env [simp]: "summation (sample_env docs dists) = Plain"
  by (simp add: sample_env_def)

lemma float_sub_tiny_distance: "float_sub (Finite 1) tiny_distance = Finite 1"
proof -
  have "float_sub (Finite 1) tiny_distance = round64 (1 - 1 / 2 ^ 60)"
    by (simp only: tiny_distance_def float_sub_def float_neg.simps float_add.simps
        add_uminus_conv_diff)
  then show ?thesis by (simp only: round64_below_one)
qed

lemma float_sub_almost_one_distance:
  "float_sub (Finite 1) almost_one_distance = Finite (1 / 2 ^ 53)"
  using rounding_values by (simp add: almost_one_distance_def float_sub_def)

lemma float_lt_tiny_distance: "float_lt (Finite 0) tiny_distance"
  by (simp add: tiny_distance_def)

text \<open>What the sample collaborators retrieve, whatever the generation side does.\<close>

lemma sample_retrieval:
  assumes "client_error env = client_error (sample_env docs dists)"
    and "sentence_transformer_error env = None"
    and "encode env = encode (sample_env docs dists)"
    and "collection_query env = collection_query (sample_env docs dists)"
  shows "fst (query_similar_chunks env q k c w) =
           Inr (format_results docs dists (map (chunk_metadata ''doc1'') [0..<length docs]))"
  using assms
  by (simp add: query_similar_chunks_fst query_try_def index0_def sample_env_def)

lemma format_results_examples:
  "format_results [] [] ms = []"
  "format_results [d1] [x1] [m1] = [\<lparr>chunk = d1, score = float_sub (Finite 1) x1, metadata = m1\<rparr>]"
  "format_results [d1, d2] [x1, x2] [m1, m2] =
     [\<lparr>chunk = d1, score = float_sub (Finite 1) x1, metadata = m1\<rparr>,
      \<lparr>chunk = d2, score = float_sub (Finite 1) x2, metadata = m2\<rparr>]"
  "format_results [d1, d2, d3] [x1, x2, x3] [m1, m2, m3] =
     [\<lparr>chunk = d1, score = float_sub (Finite 1) x1, metadata = m1\<rparr>,
      \<lparr>chunk = d2, score = float_sub (Finite 1) x2, metadata = m2\<rparr>,
      \<lparr>chunk = d3, score = float_sub (Finite 1) x3, metadata = m3\<rparr>]"
  by (simp_all add: format_results_def)

lemma upt_examples: "[0..<length [a]] = [0]" "[0..<length [a, b]] = [0, 1]"
  "[0..<length [a, b, c]] = [0, 1, 2]"
  by (simp_all add: upt_rec)

lemma source_of_sample:
  "source_of \<lparr>chunk = d, score = s, metadata = chunk_metadata src i\<rparr> =
     \<lparr>source_pdf = MStr src, chunk_index = MInt (int i), source_score = s\<rparr>"
  by (simp add: source_of_def chunk_metadata_def dict_get_def)

section \<open>The claims\<close>

text \<open>
  Claim C1, as the code has it. When retrieval returned chunks and the generation
  collaborator then fails (loading the model, running the pipeline or reading its first
  sequence raises \<open>e\<close>), \<open>generate_answer\<close> absorbs the fault and returns \<open>None\<close>, and
  \<open>answer_question\<close> returns the packaged result: \<open>answer\<close> is null, \<open>sources\<close> has one entry
  per retrieved chunk, \<open>confidence\<close> is the computed mean of the scores (their float sum
  divided by their number), and \<open>error\<close> is null.
\<close>

theorem generation_failure_yields_null_answer_and_null_error:
  assumes "fst (query_similar_chunks env question top_k collection_name w) = Inr retrieved"
    and "retrieved \<noteq> []"
    and "fst (generate_try env question (str_join [NL, NL] (map chunk retrieved)) model_name 256
           (snd (query_similar_chunks env question top_k collection_name w))) = Inl e"
  shows "fst (answer_question env question top_k collection_name model_name w) =
           Inr \<lparr>answer = None, sources = map source_of retrieved,
                confidence = computed_mean (summation env) (map score retrieved),
                chunks = retrieved, error = None\<rparr>"
  using assms by (simp add: answer_question_fst)

theorem generation_failure_yields_null_answer_and_null_error_witness:
  "fst (query_similar_chunks
         ((sample_env [''The capital of France is Paris.''] [Finite (1 / 4)])
            \<lparr>load_llm_error := (\<lambda>name. Some (Exception ''model not found''))\<rparr>)
         ''What is the capital of France?'' 5 ''pdf_chunks'' fresh_world) =
     Inr [\<lparr>chunk = ''The capital of France is Paris.'', score = Finite (3 / 4),
           metadata = chunk_metadata ''doc1'' 0\<rparr>]
   \<and> fst (answer_question
         ((sample_env [''The capital of France is Paris.''] [Finite (1 / 4)])
            \<lparr>load_llm_error := (\<lambda>name. Some (Exception ''model not found''))\<rparr>)
         ''What is the capital of France?'' 5 ''pdf_chunks'' ''google/flan-t5-base'' fresh_world) =
     Inr \<lparr>answer = None,
          sources = [\<lparr>source_pdf = MStr ''doc1'', chunk_index = MInt 0, source_score = Finite (3 / 4)\<rparr>],
          confidence = Finite (3 / 4),
          chunks = [\<lparr>chunk = ''The capital of France is Paris.'', score = Finite (3 / 4),
                     metadata = chunk_metadata ''doc1'' 0\<rparr>],
          error = None\<rparr>"
proof -
  let ?env = "(sample_env [''The capital of France is Paris.''] [Finite (1 / 4)])
            \<lparr>load_llm_error := (\<lambda>name. Some (Exception ''model not found''))\<rparr>"
  let ?retrieved = "[\<lparr>chunk = ''The capital of France is Paris.'', score = Finite (3 / 4),
           metadata = chunk_metadata ''doc1'' 0\<rparr>]"
  have h1: "fst (query_similar_chunks ?env ''What is the capital of France?'' 5 ''pdf_chunks'' fresh_world) =
      Inr ?retrieved"
    by (subst sample_retrieval [of _ "[''The capital of France is Paris.'']" "[Finite (1 / 4)]"])
      (simp_all add: sample_env_def format_results_examples upt_examples float_examples)
  have h2: "?retrieved \<noteq> []" by simp
  have h3: "fst (generate_try ?env ''What is the capital of France?''
      (str_join [NL, NL] (map chunk ?retrieved)) ''google/flan-t5-base'' 256
      (snd (query_similar_chunks ?env ''What is the capital of France?'' 5 ''pdf_chunks'' fresh_world))) =
      Inl (Exception ''model not found'')"
    by (simp add: generate_try_fst)
  from generation_failure_yields_null_answer_and_null_error [OF h1 h2 h3] h1
  show ?thesis by (simp add: source_of_sample float_examples)
qed

text \<open>
  The claim as the spec states it (a generation failure yields the result with an error
  message, empty sources and zero confidence) fails: the pipeline runs out of memory on
  the prompt, and the result has a null error, one source and confidence 0.75.
\<close>

theorem generation_failure_counterexample:
  "fst (generate_try
         ((sample_env [''The capital of France is Paris.''] [Finite (1 / 4)])
            \<lparr>pipe := (\<lambda>name prompt n. Inl (Exception ''CUDA out of memory''))\<rparr>)
         ''What is the capital of France?'' ''The capital of France is Paris.''
         ''google/flan-t5-base'' 256 fresh_world) = Inl (Exception ''CUDA out of memory'')
   \<and> fst (answer_question
         ((sample_env [''The capital of France is Paris.''] [Finite (1 / 4)])
            \<lparr>pipe := (\<lambda>name prompt n. Inl (Exception ''CUDA out of memory''))\<rparr>)
         ''What is the capital of France?'' 5 ''pdf_chunks'' ''google/flan-t5-base'' fresh_world) =
     Inr \<lparr>answer = None,
          sources = [\<lparr>source_pdf = MStr ''doc1'', chunk_index = MInt 0, source_score = Finite (3 / 4)\<rparr>],
          confidence = Finite (3 / 4),
          chunks = [\<lparr>chunk = ''The capital of France is Paris.'', score = Finite (3 / 4),
                     metadata = chunk_metadata ''doc1'' 0\<rparr>],
          error = None\<rparr>
   \<and> fst (answer_question
         ((sample_env [''The capital of France is Paris.''] [Finite (1 / 4)])
            \<lparr>pipe := (\<lambda>name prompt n. Inl (Exception ''CUDA out of memory''))\<rparr>)
         ''What is the capital of France?'' 5 ''pdf_chunks'' ''google/flan-t5-base'' fresh_world) \<noteq>
     Inr (failure_result (Exception ''CUDA out of memory''))"
proof -
  let ?env = "(sample_env [''The capital of France is Paris.''] [Finite (1 / 4)])
            \<lparr>pipe := (\<lambda>name prompt n. Inl (Exception ''CUDA out of memory''))\<rparr>"
  have h1: "fst (query_similar_chunks ?env ''What is the capital of France?'' 5 ''pdf_chunks'' fresh_world) =
      Inr [\<lparr>chunk = ''The capital of France is Paris.'', score = Finite (3 / 4),
           metadata = chunk_metadata ''doc1'' 0\<rparr>]"
    by (subst sample_retrieval [of _ "[''The capital of France is Paris.'']" "[Finite (1 / 4)]"])
      (simp_all add: sample_env_def format_results_examples upt_examples float_examples)
  have g: "\<And>ctx w. fst (generate_try ?env ''What is the capital of France?'' ctx
      ''google/flan-t5-base'' 256 w) = Inl (Exception ''CUDA out of memory'')"
    by (simp add: generate_try_fst sample_env_def)
  show ?thesis
    by (simp add: answer_question_fst h1 g source_of_sample float_examples failure_result_def)
qed

text \<open>
  Claim C2, as the code has it. \<open>answer_question\<close> always returns a result; its \<open>answer\<close>
  and \<open>error\<close> are never both non-null; whenever \<open>error\<close> is non-null, \<open>answer\<close> is null,
  \<open>sources\<close> is empty and \<open>confidence\<close> is 0.0; and both are null exactly when retrieval
  returned chunks and the generation collaborator then failed.
\<close>

theorem answer_and_error_never_both_set:
  "\<exists>r. fst (answer_question env question top_k collection_name model_name w) = Inr r
     \<and> (answer r = None \<or> error r = None)
     \<and> (error r \<noteq> None \<longrightarrow> answer r = None \<and> sources r = [] \<and> confidence r = Finite 0)
     \<and> ((answer r = None \<and> error r = None) =
          (\<exists>retrieved e. fst (query_similar_chunks env question top_k collection_name w) = Inr retrieved
             \<and> retrieved \<noteq> []
             \<and> fst (generate_try env question (str_join [NL, NL] (map chunk retrieved)) model_name 256
                  (snd (query_similar_chunks env question top_k collection_name w))) = Inl e))"
proof (cases "fst (query_similar_chunks env question top_k collection_name w)")
  case (Inl e)
  then show ?thesis by (simp add: answer_question_fst failure_result_def)
next
  case (Inr retrieved)
  show ?thesis
  proof (cases "retrieved = []")
    case True
    then show ?thesis using Inr by (simp add: answer_question_fst no_context_result_def)
  next
    case False
    then show ?thesis using Inr by (auto simp: answer_question_fst split: sum.splits)
  qed
qed

theorem answer_and_error_never_both_set_witness:
  "error (projr (fst (answer_question
       ((sample_env [] [])\<lparr>client_error := (\<lambda>name. Some (Exception ''database is locked''))\<rparr>)
       ''What is the capital of France?'' 5 ''pdf_chunks'' ''google/flan-t5-base'' fresh_world))) =
     Some ''database is locked''
   \<and> answer (projr (fst (answer_question
       ((sample_env [] [])\<lparr>client_error := (\<lambda>name. Some (Exception ''database is locked''))\<rparr>)
       ''What is the capital of France?'' 5 ''pdf_chunks'' ''google/flan-t5-base'' fresh_world))) = None
   \<and> sources (projr (fst (answer_question
       ((sample_env [] [])\<lparr>client_error := (\<lambda>name. Some (Exception ''database is locked''))\<rparr>)
       ''What is the capital of France?'' 5 ''pdf_chunks'' ''google/flan-t5-base'' fresh_world))) = []
   \<and> confidence (projr (fst (answer_question
       ((sample_env [] [])\<lparr>client_error := (\<lambda>name. Some (Exception ''database is locked''))\<rparr>)
       ''What is the capital of France?'' 5 ''pdf_chunks'' ''google/flan-t5-base'' fresh_world))) = Finite 0"
proof -
  let ?env = "(sample_env [] [])\<lparr>client_error := (\<lambda>name. Some (Exception ''database is locked''))\<rparr>"
  let ?run = "fst (answer_question ?env ''What is the capital of France?'' 5 ''pdf_chunks''
    ''google/flan-t5-base'' fresh_world)"
  from answer_and_error_never_both_set
    [of ?env "''What is the capital of France?''" 5 "''pdf_chunks''" "''google/flan-t5-base''" fresh_world]
  obtain r where r: "?run = Inr r"
    and imp: "error r \<noteq> None \<longrightarrow> answer r = None \<and> sources r = [] \<and> confidence r = Finite 0"
    by blast
  have "?run = Inr (failure_result (Exception ''database is locked''))"
    by (simp add: answer_question_fst query_similar_chunks_fst)
  then have e: "error r = Some ''database is locked''" using r by (simp add: failure_result_def)
  then have "answer r = None \<and> sources r = [] \<and> confidence r = Finite 0" using imp by simp
  then show ?thesis using r e by simp
qed

text \<open>
  The claim as the spec states it (exactly one of \<open>answer\<close> and \<open>error\<close> is non-null) fails:
  when the model cannot be loaded, both are null.
\<close>

theorem neither_answer_nor_error_counterexample:
  "answer (projr (fst (answer_question
       ((sample_env [''The capital of France is Paris.''] [Finite (1 / 4)])
          \<lparr>load_llm_error := (\<lambda>name. Some (Exception ''model not found''))\<rparr>)
       ''What is the capital of France?'' 5 ''pdf_chunks'' ''google/flan-t5-base'' fresh_world))) = None
   \<and> error (projr (fst (answer_question
       ((sample_env [''The capital of France is Paris.''] [Finite (1 / 4)])
          \<lparr>load_llm_error := (\<lambda>name. Some (Exception ''model not found''))\<rparr>)
       ''What is the capital of France?'' 5 ''pdf_chunks'' ''google/flan-t5-base'' fresh_world))) = None"
proof -
  let ?env = "(sample_env [''The capital of France is Paris.''] [Finite (1 / 4)])
          \<lparr>load_llm_error := (\<lambda>name. Some (Exception ''model not found''))\<rparr>"
  have h1: "fst (query_similar_chunks ?env ''What is the capital of France?'' 5 ''pdf_chunks'' fresh_world) =
      Inr [\<lparr>chunk = ''The capital of France is Paris.'', score = Finite (3 / 4),
           metadata = chunk_metadata ''doc1'' 0\<rparr>]"
    by (subst sample_retrieval [of _ "[''The capital of France is Paris.'']" "[Finite (1 / 4)]"])
      (simp_all add: sample_env_def format_results_examples upt_examples float_examples)
  show ?thesis by (simp add: answer_question_fst h1 generate_try_fst)
qed

text \<open>
  Claim C3. When retrieval returns the empty sequence, \<open>answer_question\<close> returns the
  result with a null answer, no sources, confidence 0.0 and the error
  \<open>No relevant context found.\<close>, and nothing is asked of the generation collaborator: its
  trace is what it was before the call.
\<close>

theorem no_context_when_retrieval_empty:
  assumes "query_similar_chunks env question top_k collection_name w = (Inr [], w1)"
  shows "answer_question env question top_k collection_name model_name w =
           (Inr \<lparr>answer = None, sources = [], confidence = Finite 0, chunks = [],
             error = Some ''No relevant context found.''\<rparr>, w1)
       \<and> gen_trace w1 = gen_trace w"
  using assms query_similar_chunks_trace [of env question top_k collection_name w]
  by (simp add: answer_question_def answer_try_eq no_context_result_def)

theorem no_context_when_retrieval_empty_witness:
  "query_similar_chunks (sample_env [] []) ''What is the capital of France?'' 5 ''pdf_chunks'' fresh_world =
     (Inr [], fresh_world\<lparr>db := (db fresh_world)(''pdf_chunks'' \<mapsto> [])\<rparr>)
   \<and> answer_question (sample_env [] []) ''What is the capital of France?'' 5 ''pdf_chunks''
        ''google/flan-t5-base'' fresh_world =
     (Inr \<lparr>answer = None, sources = [], confidence = Finite 0, chunks = [],
             error = Some ''No relevant context found.''\<rparr>,
      fresh_world\<lparr>db := (db fresh_world)(''pdf_chunks'' \<mapsto> [])\<rparr>)
   \<and> gen_trace (fresh_world\<lparr>db := (db fresh_world)(''pdf_chunks'' \<mapsto> [])\<rparr>) = gen_trace fresh_world"
proof -
  have h: "query_similar_chunks (sample_env [] []) ''What is the capital of France?'' 5 ''pdf_chunks'' fresh_world =
     (Inr [], fresh_world\<lparr>db := (db fresh_world)(''pdf_chunks'' \<mapsto> [])\<rparr>)"
    by (simp add: query_similar_chunks_def get_or_create_collection_def load_embedding_model_def
        query_try_def index0_def format_results_def sample_env_def fresh_world_def)
  from no_context_when_retrieval_empty [OF h, of "''google/flan-t5-base''"] h
  show ?thesis by simp
qed




text \<open>
  Claim C5, as the code has it. Whenever retrieval returns, the \<open>confidence\<close> of the result
  is 0.0 for an empty retrieval, and otherwise the float quotient of \<open>sum(scores)\<close>, the
  interpreter's float sum of the scores of all retrieved chunks, by their number. When the
  scores add up exactly (each score and each sum of the first \<open>k\<close> scores is a binary64
  value) and there are fewer than \<open>2^53\<close> of them, this is the arithmetic mean of the scores
  rounded to the nearest binary64 value, however the interpreter sums.
\<close>

theorem confidence_is_quotient_of_float_sum:
  assumes "fst (query_similar_chunks env question top_k collection_name w) = Inr retrieved"
  shows "\<exists>r. fst (answer_question env question top_k collection_name model_name w) = Inr r
           \<and> confidence r =
               (if retrieved = [] then Finite 0
                else float_div (py_sum (summation env) (map score retrieved))
                       (round64 (of_nat (length retrieved))))
           \<and> (\<forall>qs. retrieved \<noteq> [] \<and> map score retrieved = map Finite qs \<and> adds_exactly qs
                   \<and> length retrieved < 2 ^ 53
                 \<longrightarrow> confidence r = round64 (exact_mean qs))"
proof (cases "retrieved = []")
  case True
  then show ?thesis using assms by (simp add: answer_question_fst no_context_result_def)
next
  case False
  define r where "r = \<lparr>answer =
      (case fst (generate_try env question (str_join [NL, NL] (map chunk retrieved)) model_name 256
                   (snd (query_similar_chunks env question top_k collection_name w))) of
         Inl e \<Rightarrow> None | Inr t \<Rightarrow> Some t),
      sources = map source_of retrieved,
      confidence = computed_mean (summation env) (map score retrieved),
      chunks = retrieved, error = None\<rparr>"
  have res: "fst (answer_question env question top_k collection_name model_name w) = Inr r"
    using assms False by (simp add: answer_question_fst r_def)
  have c: "confidence r = computed_mean (summation env) (map score retrieved)"
    by (simp add: r_def)
  have exact: "confidence r = round64 (exact_mean qs)"
    if "map score retrieved = map Finite qs" "adds_exactly qs" "length retrieved < 2 ^ 53" for qs
  proof -
    have "length qs = length retrieved"
      using that(1) by (metis length_map)
    then show ?thesis using that c computed_mean_exact [of qs "summation env"] by simp
  qed
  show ?thesis
    using res c exact False by (auto simp: computed_mean_def)
qed

theorem confidence_is_quotient_of_float_sum_witness:
  "fst (query_similar_chunks
         (sample_env [''Paris is the capital of France.'', ''Lyon is a city in France.'']
            [Finite (1 / 4), Finite (3 / 4)])
         ''What is the capital of France?'' 5 ''pdf_chunks'' fresh_world) =
     Inr [\<lparr>chunk = ''Paris is the capital of France.'', score = Finite (3 / 4),
           metadata = chunk_metadata ''doc1'' 0\<rparr>,
          \<lparr>chunk = ''Lyon is a city in France.'', score = Finite (1 / 4),
           metadata = chunk_metadata ''doc1'' 1\<rparr>]
   \<and> adds_exactly [3 / 4, 1 / 4]
   \<and> exact_mean [3 / 4, 1 / 4] = 1 / 2
   \<and> py_sum Plain [Finite (3 / 4), Finite (1 / 4)] = Finite 1
   \<and> confidence (projr (fst (answer_question
         (sample_env [''Paris is the capital of France.'', ''Lyon is a city in France.'']
            [Finite (1 / 4), Finite (3 / 4)])
         ''What is the capital of France?'' 5 ''pdf_chunks'' ''google/flan-t5-base'' fresh_world))) =
     Finite (1 / 2)"
proof -
  let ?env = "sample_env [''Paris is the capital of France.'', ''Lyon is a city in France.'']
            [Finite (1 / 4), Finite (3 / 4)]"
  let ?retrieved = "[\<lparr>chunk = ''Paris is the capital of France.'', score = Finite (3 / 4),
           metadata = chunk_metadata ''doc1'' 0\<rparr>,
          \<lparr>chunk = ''Lyon is a city in France.'', score = Finite (1 / 4),
           metadata = chunk_metadata ''doc1'' 1\<rparr>]"
  have h: "fst (query_similar_chunks ?env ''What is the capital of France?'' 5 ''pdf_chunks'' fresh_world) =
     Inr ?retrieved"
    by (subst sample_retrieval [of _ "[''Paris is the capital of France.'', ''Lyon is a city in France.'']"
          "[Finite (1 / 4), Finite (3 / 4)]"])
      (simp_all add: sample_env_def format_results_examples upt_examples float_examples)
  have a: "adds_exactly [3 / 4, 1 / 4]"
    by (simp add: adds_exactly_def is_binary64_def round64_examples upt_rec)
  have m: "exact_mean [3 / 4, 1 / 4] = 1 / 2"
    by (simp add: exact_mean_def)
  have s: "py_sum Plain [Finite (3 / 4), Finite (1 / 4)] = Finite 1"
    by (simp add: py_sum_plain_def round64_examples)
  from confidence_is_quotient_of_float_sum [OF h, of "''google/flan-t5-base''"]
  obtain r where r: "fst (answer_question ?env ''What is the capital of France?'' 5 ''pdf_chunks''
        ''google/flan-t5-base'' fresh_world) = Inr r"
    and q: "confidence r = float_div (py_sum (summation ?env) (map score ?retrieved))
              (round64 (of_nat (length ?retrieved)))"
    and e: "\<forall>qs. ?retrieved \<noteq> [] \<and> map score ?retrieved = map Finite qs \<and> adds_exactly qs
                   \<and> length ?retrieved < 2 ^ 53
                 \<longrightarrow> confidence r = round64 (exact_mean qs)"
    by auto
  have "confidence r = round64 (exact_mean [3 / 4, 1 / 4])"
    using a by (intro e [rule_format]) simp
  then have "confidence r = Finite (1 / 2)"
    by (simp add: m round64_examples)
  then show ?thesis using h r a m s by simp
qed

text \<open>
  The claim as the spec states it (the confidence equals the arithmetic mean of the
  scores) fails. Three chunks are retrieved at the distances \<open>0\<close>, \<open>1 - 2^-53\<close> and
  \<open>1 - 2^-53\<close>, so their scores are \<open>1\<close>, \<open>2^-53\<close> and \<open>2^-53\<close>, and the arithmetic mean of the
  scores is \<open>(1 + 2^-52) / 3\<close>, which is no binary64 value; the binary64 value nearest to it
  is \<open>6004799503160663 / 2^54\<close>. Under an interpreter that sums plainly both small scores
  are lost in the sum and the confidence is \<open>6004799503160661 / 2^54\<close>, neither the mean nor
  the mean rounded; under an interpreter that sums with compensation the confidence is
  another value, the mean rounded.
\<close>

theorem confidence_differs_from_mean_counterexample:
  "fst (query_similar_chunks
         (sample_env [''Paris is the capital of France.'', ''Lyon is a city in France.'',
              ''Nice is a city in France.'']
            [Finite 0, almost_one_distance, almost_one_distance])
         ''What is the capital of France?'' 5 ''pdf_chunks'' fresh_world) =
     Inr [\<lparr>chunk = ''Paris is the capital of France.'', score = Finite 1,
           metadata = chunk_metadata ''doc1'' 0\<rparr>,
          \<lparr>chunk = ''Lyon is a city in France.'', score = Finite (1 / 2 ^ 53),
           metadata = chunk_metadata ''doc1'' 1\<rparr>,
          \<lparr>chunk = ''Nice is a city in France.'', score = Finite (1 / 2 ^ 53),
           metadata = chunk_metadata ''doc1'' 2\<rparr>]
   \<and> exact_mean [1, 1 / 2 ^ 53, 1 / 2 ^ 53] = (1 + 1 / 2 ^ 52) / 3
   \<and> round64 (exact_mean [1, 1 / 2 ^ 53, 1 / 2 ^ 53]) = Finite (6004799503160663 / 2 ^ 54)
   \<and> confidence (projr (fst (answer_question
         (sample_env [''Paris is the capital of France.'', ''Lyon is a city in France.'',
              ''Nice is a city in France.'']
            [Finite 0, almost_one_distance, almost_one_distance])
         ''What is the capital of France?'' 5 ''pdf_chunks'' ''google/flan-t5-base'' fresh_world))) =
     Finite (6004799503160661 / 2 ^ 54)
   \<and> Finite (6004799503160661 / 2 ^ 54) \<noteq> Finite (exact_mean [1, 1 / 2 ^ 53, 1 / 2 ^ 53])
   \<and> Finite (6004799503160661 / 2 ^ 54) \<noteq> round64 (exact_mean [1, 1 / 2 ^ 53, 1 / 2 ^ 53])
   \<and> confidence (projr (fst (answer_question
         ((sample_env [''Paris is the capital of France.'', ''Lyon is a city in France.'',
              ''Nice is a city in France.'']
            [Finite 0, almost_one_distance, almost_one_distance])
            \<lparr>summation := Compensated\<rparr>)
         ''What is the capital of France?'' 5 ''pdf_chunks'' ''google/flan-t5-base'' fresh_world))) =
     Finite (6004799503160663 / 2 ^ 54)
   \<and> Finite (6004799503160663 / 2 ^ 54) \<noteq> Finite (exact_mean [1, 1 / 2 ^ 53, 1 / 2 ^ 53])"
proof -
  let ?docs = "[''Paris is the capital of France.'', ''Lyon is a city in France.'',
              ''Nice is a city in France.'']"
  let ?dists = "[Finite 0, almost_one_distance, almost_one_distance]"
  let ?env = "sample_env ?docs ?dists"
  let ?retrieved = "[\<lparr>chunk = ''Paris is the capital of France.'', score = Finite 1,
           metadata = chunk_metadata ''doc1'' 0\<rparr>,
          \<lparr>chunk = ''Lyon is a city in France.'', score = Finite (1 / 2 ^ 53),
           metadata = chunk_metadata ''doc1'' 1\<rparr>,
          \<lparr>chunk = ''Nice is a city in France.'', score = Finite (1 / 2 ^ 53),
           metadata = chunk_metadata ''doc1'' 2\<rparr>]"
  have h: "fst (query_similar_chunks env' ''What is the capital of France?'' 5 ''pdf_chunks'' fresh_world) =
     Inr ?retrieved" if "env' = ?env \<or> env' = ?env\<lparr>summation := Compensated\<rparr>" for env'
    using that
    by (subst sample_retrieval [of _ ?docs ?dists])
      (auto simp: sample_env_def format_results_examples upt_examples float_examples
        float_sub_almost_one_distance numeral_2_eq_2)
  have m: "exact_mean [1, 1 / 2 ^ 53, 1 / 2 ^ 53] = (1 + 1 / 2 ^ 52) / 3"
    by (simp add: exact_mean_def)
  have rm: "round64 (exact_mean [1, 1 / 2 ^ 53, 1 / 2 ^ 53]) = Finite (6004799503160663 / 2 ^ 54)"
    by (simp only: m round64_third_above)
  have p: "confidence (projr (fst (answer_question ?env ''What is the capital of France?'' 5
        ''pdf_chunks'' ''google/flan-t5-base'' fresh_world))) = Finite (6004799503160661 / 2 ^ 54)"
    using computed_mean_rounding_examples(1)
    by (simp add: answer_question_fst h)
  have c: "confidence (projr (fst (answer_question (?env\<lparr>summation := Compensated\<rparr>)
        ''What is the capital of France?'' 5
        ''pdf_chunks'' ''google/flan-t5-base'' fresh_world))) = Finite (6004799503160663 / 2 ^ 54)"
    using computed_mean_rounding_examples(2)
    by (simp add: answer_question_fst h)
  have ne: "Finite (6004799503160661 / 2 ^ 54) \<noteq> Finite (exact_mean [1, 1 / 2 ^ 53, 1 / 2 ^ 53])"
    "Finite (6004799503160663 / 2 ^ 54) \<noteq> Finite (exact_mean [1, 1 / 2 ^ 53, 1 / 2 ^ 53])"
    unfolding m by simp_all
  have ne2: "Finite (6004799503160661 / 2 ^ 54) \<noteq> round64 (exact_mean [1, 1 / 2 ^ 53, 1 / 2 ^ 53])"
    unfolding rm by simp
  show ?thesis
    using h [of ?env] m rm p c ne ne2 by (simp only: simp_thms)
qed

text \<open>
  Claim C6, as the code has it. Each retrieved chunk's score is the float \<open>1.0 - distance\<close>,
  that is one minus the collaborator's distance rounded to the nearest binary64 value;
  consequently, for two results of one query, a smaller distance never gives a smaller
  score: \<open>distance_a < distance_b\<close> implies \<open>similarity_a >= similarity_b\<close>.
\<close>

theorem similarity_is_rounded_one_minus_distance:
  assumes "fst (query_similar_chunks env query top_k collection_name w) = Inr output"
    and "output \<noteq> []"
  shows "\<exists>query_embedding results docs dists metas.
           collection_query env (collection_contents w collection_name) [query_embedding] top_k = Inr results
         \<and> index0 (documents results) = Inr docs
         \<and> index0 (distances results) = Inr dists
         \<and> index0 (metadatas results) = Inr metas
         \<and> length output = min (length docs) (min (length dists) (length metas))
         \<and> (\<forall>i<length output. chunk (output ! i) = docs ! i
               \<and> score (output ! i) = float_sub (Finite 1) (dists ! i))
         \<and> (\<forall>i<length output. \<forall>j<length output.
               float_lt (dists ! i) (dists ! j) \<longrightarrow> float_le (score (output ! j)) (score (output ! i)))"
proof -
  have "query_try env query top_k (collection_contents w collection_name) = Inr output"
    using assms by (simp add: query_similar_chunks_fst split: option.splits sum.splits)
  then obtain query_embedding results docs dists metas where
    q: "collection_query env (collection_contents w collection_name) [query_embedding] top_k = Inr results"
    and d: "index0 (documents results) = Inr docs" "index0 (distances results) = Inr dists"
      "index0 (metadatas results) = Inr metas"
    and out: "output = format_results docs dists metas"
    by (auto simp: query_try_def split: sum.splits)
  have nth: "\<And>i. i < length output \<Longrightarrow>
      chunk (output ! i) = docs ! i \<and> score (output ! i) = float_sub (Finite 1) (dists ! i)"
    using format_results_nth [of _ docs dists metas] out by simp
  have "\<And>i j. i < length output \<Longrightarrow> j < length output \<Longrightarrow> float_lt (dists ! i) (dists ! j) \<Longrightarrow>
      float_le (score (output ! j)) (score (output ! i))"
    using nth float_sub_antitone by simp
  then show ?thesis
    using q d out nth format_results_length [of docs dists metas] by blast
qed

theorem similarity_is_rounded_one_minus_distance_witness:
  "fst (query_similar_chunks
         (sample_env [''Paris is the capital of France.'', ''Lyon is a city in France.'']
            [Finite (1 / 4), Finite (3 / 4)])
         ''What is the capital of France?'' 5 ''pdf_chunks'' fresh_world) =
     Inr [\<lparr>chunk = ''Paris is the capital of France.'', score = Finite (3 / 4),
           metadata = chunk_metadata ''doc1'' 0\<rparr>,
          \<lparr>chunk = ''Lyon is a city in France.'', score = Finite (1 / 4),
           metadata = chunk_metadata ''doc1'' 1\<rparr>]
   \<and> float_lt (Finite (1 / 4)) (Finite (3 / 4))
   \<and> float_sub (Finite 1) (Finite (1 / 4)) = Finite (3 / 4)
   \<and> float_sub (Finite 1) (Finite (3 / 4)) = Finite (1 / 4)
   \<and> float_le (Finite (1 / 4)) (Finite (3 / 4))"
proof -
  let ?env = "sample_env [''Paris is the capital of France.'', ''Lyon is a city in France.'']
            [Finite (1 / 4), Finite (3 / 4)]"
  let ?out = "[\<lparr>chunk = ''Paris is the capital of France.'', score = Finite (3 / 4),
           metadata = chunk_metadata ''doc1'' 0\<rparr>,
          \<lparr>chunk = ''Lyon is a city in France.'', score = Finite (1 / 4),
           metadata = chunk_metadata ''doc1'' 1\<rparr>]"
  have h: "fst (query_similar_chunks ?env ''What is the capital of France?'' 5 ''pdf_chunks'' fresh_world) =
     Inr ?out"
    by (subst sample_retrieval [of _ "[''Paris is the capital of France.'', ''Lyon is a city in France.'']"
          "[Finite (1 / 4), Finite (3 / 4)]"])
      (simp_all add: sample_env_def format_results_examples upt_examples float_examples)
  have ne: "?out \<noteq> []" by simp
  from similarity_is_rounded_one_minus_distance [OF h ne]
  obtain query_embedding results docs dists metas where
    q: "collection_query ?env (collection_contents fresh_world ''pdf_chunks'') [query_embedding] 5 =
          Inr results"
    and d: "index0 (distances results) = Inr dists"
    and sc: "\<forall>i<length ?out. chunk (?out ! i) = docs ! i
               \<and> score (?out ! i) = float_sub (Finite 1) (dists ! i)"
    and mono: "\<forall>i<length ?out. \<forall>j<length ?out.
        float_lt (dists ! i) (dists ! j) \<longrightarrow> float_le (score (?out ! j)) (score (?out ! i))"
    by blast
  have "results = \<lparr>documents = [[''Paris is the capital of France.'', ''Lyon is a city in France.'']],
      distances = [[Finite (1 / 4), Finite (3 / 4)]],
      metadatas = [map (chunk_metadata ''doc1'')
        [0..<length [''Paris is the capital of France.'', ''Lyon is a city in France.'']]]\<rparr>"
    using q by (simp add: sample_env_def)
  then have dists: "dists = [Finite (1 / 4), Finite (3 / 4)]"
    using d by (simp add: index0_def)
  have lt: "float_lt (Finite (1 / 4)) (Finite (3 / 4))" by simp
  have "float_lt (dists ! 0) (dists ! 1) \<longrightarrow> float_le (score (?out ! 1)) (score (?out ! 0))"
    using mono [rule_format, of 0 1] by simp
  then have le: "float_le (Finite (1 / 4)) (Finite (3 / 4))"
    using lt dists by simp
  have "score (?out ! 0) = float_sub (Finite 1) (dists ! 0)"
    and "score (?out ! 1) = float_sub (Finite 1) (dists ! 1)"
    using sc [rule_format, of 0] sc [rule_format, of 1] by simp_all
  then have s: "float_sub (Finite 1) (Finite (1 / 4)) = Finite (3 / 4)"
    "float_sub (Finite 1) (Finite (3 / 4)) = Finite (1 / 4)"
    using dists by simp_all
  show ?thesis using h lt le s by blast
qed

text \<open>
  The claim as the spec states it (a smaller distance gives a strictly larger score) fails
  in float arithmetic: the distances \<open>0.0\<close> and \<open>2^-60\<close> both give the score \<open>1.0\<close>, since
  \<open>1 - 2^-60\<close> is not a binary64 value and rounds to \<open>1.0\<close>.
\<close>

theorem similarity_not_strictly_monotone_counterexample:
  "fst (query_similar_chunks
         (sample_env [''Paris is the capital of France.'', ''The capital of France is Paris.'']
            [Finite 0, tiny_distance])
         ''Paris is the capital of France.'' 5 ''pdf_chunks'' fresh_world) =
     Inr [\<lparr>chunk = ''Paris is the capital of France.'', score = Finite 1,
           metadata = chunk_metadata ''doc1'' 0\<rparr>,
          \<lparr>chunk = ''The capital of France is Paris.'', score = Finite 1,
           metadata = chunk_metadata ''doc1'' 1\<rparr>]
   \<and> float_lt (Finite 0) tiny_distance
   \<and> \<not> float_lt (Finite 1) (Finite 1)"
proof -
  have "fst (query_similar_chunks
         (sample_env [''Paris is the capital of France.'', ''The capital of France is Paris.'']
            [Finite 0, tiny_distance])
         ''Paris is the capital of France.'' 5 ''pdf_chunks'' fresh_world) =
     Inr [\<lparr>chunk = ''Paris is the capital of France.'', score = Finite 1,
           metadata = chunk_metadata ''doc1'' 0\<rparr>,
          \<lparr>chunk = ''The capital of France is Paris.'', score = Finite 1,
           metadata = chunk_metadata ''doc1'' 1\<rparr>]"
    by (subst sample_retrieval [of _ "[''Paris is the capital of France.'', ''The capital of France is Paris.'']"
          "[Finite 0, tiny_distance]"])
      (simp_all add: sample_env_def format_results_examples upt_examples float_examples
        float_sub_tiny_distance)
  then show ?thesis using float_lt_tiny_distance by simp
qed

text \<open>
  Claim C7, with the collaborator's insertion taken from the spec (\<open>collection_add\<close>). The id
  of a chunk is \<open>"{source_pdf}_{index}"\<close>, and no other source and index give the same id.
  Indexing a source and then indexing it again (with no more chunks than before) succeeds
  both times, leaves the size and the ids of the collection unchanged, and leaves under
  each re-indexed id exactly one stored vector: the one written by the second indexing.
\<close>

theorem reindexing_overwrites_without_duplicates:
  assumes "client_error env collection_name = None"
    and "distinct (map fst (collection_contents w collection_name))"
    and "length embeddings1 = length chunks1"
    and "length embeddings2 = length chunks2"
    and "length chunks2 \<le> length chunks1"
  shows "\<exists>w1 w2.
           store_embeddings env embeddings1 chunks1 source collection_name w = (Inr (), w1)
         \<and> store_embeddings env embeddings2 chunks2 source collection_name w1 = (Inr (), w2)
         \<and> length (collection_contents w2 collection_name) = length (collection_contents w1 collection_name)
         \<and> map fst (collection_contents w2 collection_name) = map fst (collection_contents w1 collection_name)
         \<and> (\<forall>i<length chunks2.
              filter (\<lambda>entry. fst entry = chunk_id source i) (collection_contents w2 collection_name) =
                [(chunk_id source i,
                  \<lparr>sv_embedding = embeddings2 ! i, sv_document = chunks2 ! i,
                   sv_metadata = chunk_metadata source i\<rparr>)])
         \<and> (\<forall>i other_source j. chunk_id other_source j = chunk_id source i \<longrightarrow>
              other_source = source \<and> j = i)"
proof -
  define c0 where "c0 = collection_contents w collection_name"
  define c1 where "c1 = upsert_all (written embeddings1 chunks1 source) c0"
  define c2 where "c2 = upsert_all (written embeddings2 chunks2 source) c1"
  define w1 where "w1 = w\<lparr>db := (db w)(collection_name \<mapsto> c1)\<rparr>"
  define w2 where "w2 = w1\<lparr>db := (db w1)(collection_name \<mapsto> c2)\<rparr>"
  have s1: "store_embeddings env embeddings1 chunks1 source collection_name w = (Inr (), w1)"
    using store_embeddings_eq [OF assms(1) assms(3)] by (simp add: w1_def c1_def c0_def)
  have cc1: "collection_contents w1 collection_name = c1"
    by (simp add: w1_def collection_contents_def)
  have s2: "store_embeddings env embeddings2 chunks2 source collection_name w1 = (Inr (), w2)"
    using store_embeddings_eq [OF assms(1) assms(4), of source w1]
    by (simp add: w2_def c2_def cc1)
  have cc2: "collection_contents w2 collection_name = c2"
    by (simp add: w2_def collection_contents_def)
  have "set (map (chunk_id source) [0..<length chunks2])
      \<subseteq> set (map (chunk_id source) [0..<length chunks1])"
    using assms(5) by auto
  then have sub: "set (map fst (written embeddings2 chunks2 source)) \<subseteq> set (map fst c1)"
    using keys_upsert_all [of "written embeddings1 chunks1 source" c0]
    by (simp only: c1_def written_keys [OF assms(3)] written_keys [OF assms(4)]) blast
  have keys: "map fst c2 = map fst c1"
    unfolding c2_def using sub by (rule upsert_all_present)
  then have len: "length c2 = length c1" by (metis length_map)
  have d2: "distinct (map fst c2)"
    using assms(2) by (simp add: c2_def c1_def c0_def distinct_upsert_all)
  have dk: "distinct (map fst (written embeddings2 chunks2 source))"
    by (simp add: written_keys [OF assms(4)] distinct_chunk_ids)
  have one: "\<And>i. i < length chunks2 \<Longrightarrow>
      filter (\<lambda>entry. fst entry = chunk_id source i) c2 =
        [(chunk_id source i,
          \<lparr>sv_embedding = embeddings2 ! i, sv_document = chunks2 ! i,
           sv_metadata = chunk_metadata source i\<rparr>)]"
  proof -
    fix i assume "i < length chunks2"
    from written_nth [OF assms(4) this, of source]
    have "map_of c2 (chunk_id source i) =
        Some \<lparr>sv_embedding = embeddings2 ! i, sv_document = chunks2 ! i,
              sv_metadata = chunk_metadata source i\<rparr>"
      unfolding c2_def by (rule map_of_upsert_all_written [OF dk])
    then show "filter (\<lambda>entry. fst entry = chunk_id source i) c2 =
        [(chunk_id source i,
          \<lparr>sv_embedding = embeddings2 ! i, sv_document = chunks2 ! i,
           sv_metadata = chunk_metadata source i\<rparr>)]"
      using d2 by (rule only_entry_of_key [rotated])
  qed
  show ?thesis
    using s1 s2 keys len one by (simp add: cc1 cc2 chunk_id_inj)
qed

theorem reindexing_overwrites_without_duplicates_witness:
  "client_error (sample_env [] []) ''pdf_chunks'' = None
   \<and> distinct (map fst (collection_contents fresh_world ''pdf_chunks''))
   \<and> fst (store_embeddings (sample_env [] []) [[Finite 0], [Finite 1]] [''first text'', ''second text'']
        ''doc1.pdf'' ''pdf_chunks'' fresh_world) = Inr ()
   \<and> fst (store_embeddings (sample_env [] []) [[Finite 1], [Finite 0]] [''new first'', ''new second'']
        ''doc1.pdf'' ''pdf_chunks''
        (snd (store_embeddings (sample_env [] []) [[Finite 0], [Finite 1]] [''first text'', ''second text'']
           ''doc1.pdf'' ''pdf_chunks'' fresh_world))) = Inr ()
   \<and> length (collection_contents
        (snd (store_embeddings (sample_env [] []) [[Finite 0], [Finite 1]] [''first text'', ''second text'']
           ''doc1.pdf'' ''pdf_chunks'' fresh_world)) ''pdf_chunks'') = 2
   \<and> length (collection_contents
        (snd (store_embeddings (sample_env [] []) [[Finite 1], [Finite 0]] [''new first'', ''new second'']
           ''doc1.pdf'' ''pdf_chunks''
           (snd (store_embeddings (sample_env [] []) [[Finite 0], [Finite 1]] [''first text'', ''second text'']
              ''doc1.pdf'' ''pdf_chunks'' fresh_world)))) ''pdf_chunks'') = 2
   \<and> filter (\<lambda>entry. fst entry = chunk_id ''doc1.pdf'' 0)
        (collection_contents
          (snd (store_embeddings (sample_env [] []) [[Finite 1], [Finite 0]] [''new first'', ''new second'']
             ''doc1.pdf'' ''pdf_chunks''
             (snd (store_embeddings (sample_env [] []) [[Finite 0], [Finite 1]] [''first text'', ''second text'']
                ''doc1.pdf'' ''pdf_chunks'' fresh_world)))) ''pdf_chunks'') =
       [(chunk_id ''doc1.pdf'' 0,
         \<lparr>sv_embedding = [Finite 1], sv_document = ''new first'',
          sv_metadata = chunk_metadata ''doc1.pdf'' 0\<rparr>)]"
proof -
  let ?env = "sample_env [] []"
  let ?es1 = "[[Finite 0], [Finite 1]]" and ?cs1 = "[''first text'', ''second text'']"
  let ?es2 = "[[Finite 1], [Finite 0]]" and ?cs2 = "[''new first'', ''new second'']"
  let ?s1 = "store_embeddings ?env ?es1 ?cs1 ''doc1.pdf'' ''pdf_chunks'' fresh_world"
  let ?s2 = "store_embeddings ?env ?es2 ?cs2 ''doc1.pdf'' ''pdf_chunks'' (snd ?s1)"
  have h1: "client_error ?env ''pdf_chunks'' = None" by (simp add: sample_env_def)
  have h2: "distinct (map fst (collection_contents fresh_world ''pdf_chunks''))"
    by (simp add: collection_contents_def fresh_world_def)
  have h3: "length ?es1 = length ?cs1" and h4: "length ?es2 = length ?cs2"
    and h5: "length ?cs2 \<le> length ?cs1" by simp_all
  from reindexing_overwrites_without_duplicates [OF h1 h2 h3 h4 h5, of "''doc1.pdf''"]
  obtain w1 w2 where
    s1: "?s1 = (Inr (), w1)"
    and s2: "store_embeddings ?env ?es2 ?cs2 ''doc1.pdf'' ''pdf_chunks'' w1 = (Inr (), w2)"
    and len: "length (collection_contents w2 ''pdf_chunks'') = length (collection_contents w1 ''pdf_chunks'')"
    and one: "\<forall>i<length ?cs2.
        filter (\<lambda>entry. fst entry = chunk_id ''doc1.pdf'' i) (collection_contents w2 ''pdf_chunks'') =
          [(chunk_id ''doc1.pdf'' i,
            \<lparr>sv_embedding = ?es2 ! i, sv_document = ?cs2 ! i,
             sv_metadata = chunk_metadata ''doc1.pdf'' i\<rparr>)]"
    by blast
  have u: "[0..<length ?cs1] = [0, 1]" by (simp add: upt_rec)
  have "w1 = snd ?s1" using s1 by simp
  then have l1: "length (collection_contents w1 ''pdf_chunks'') = 2"
    by (simp add: store_embeddings_eq [OF h1 h3] collection_contents_def written_def
        stored_vectors_def u chunk_id_inj fresh_world_def)
  have f0: "filter (\<lambda>entry. fst entry = chunk_id ''doc1.pdf'' 0) (collection_contents w2 ''pdf_chunks'') =
      [(chunk_id ''doc1.pdf'' 0,
        \<lparr>sv_embedding = [Finite 1], sv_document = ''new first'',
         sv_metadata = chunk_metadata ''doc1.pdf'' 0\<rparr>)]"
    using one [rule_format, of 0] by simp
  show ?thesis using h1 h2 s1 s2 len l1 f0 by simp
qed

text \<open>
  Claim C8. For a non-empty retrieval, \<open>generate_answer\<close> is called with the context made of
  the first chunk's text followed by each further chunk's text, in retrieval order, each
  preceded by the separator of two newlines; the prompt handed to the pipeline is
  \<open>format_prompt\<close> of the question and that context, and the answer of the result is what
  \<open>generate_answer\<close> returned. Nothing is cut off and nothing is reordered.
\<close>

theorem context_is_chunks_joined_in_retrieval_order:
  assumes "query_similar_chunks env question top_k collection_name w = (Inr retrieved, w1)"
    and "retrieved \<noteq> []"
  shows "\<exists>a w2 r.
           generate_answer env question (chunk (hd retrieved) @ concat (map (\<lambda>item. [NL, NL] @ chunk item) (tl retrieved)))
             model_name 256 w1 = (Inr a, w2)
         \<and> answer_question env question top_k collection_name model_name w = (Inr r, w2)
         \<and> answer r = a
         \<and> gen_trace w2 = gen_trace w @ LoadLLM model_name #
             (case load_llm_error env model_name of
                None \<Rightarrow> [Pipe model_name
                  (format_prompt question (chunk (hd retrieved) @ concat (map (\<lambda>item. [NL, NL] @ chunk item) (tl retrieved)))) 256]
              | Some e \<Rightarrow> [])"
proof -
  let ?ctx = "chunk (hd retrieved) @ concat (map (\<lambda>item. [NL, NL] @ chunk item) (tl retrieved))"
  have ctx: "str_join [NL, NL] (map chunk retrieved) = ?ctx" using assms(2) by (rule str_join_eq)
  obtain a w2 where g: "generate_answer env question ?ctx model_name 256 w1 = (a, w2)"
    by (cases "generate_answer env question ?ctx model_name 256 w1")
  have a: "a = Inr (case fst (generate_try env question ?ctx model_name 256 w1) of
                      Inl e \<Rightarrow> None | Inr t \<Rightarrow> Some t)"
    using generate_answer_fst [of env question ?ctx model_name 256 w1] g by simp
  have w2: "w2 = snd (generate_try env question ?ctx model_name 256 w1)"
    using generate_answer_snd [of env question ?ctx model_name 256 w1] g by simp
  have t1: "gen_trace w1 = gen_trace w"
    using query_similar_chunks_trace [of env question top_k collection_name w] assms(1) by simp
  show ?thesis
    using assms g a w2 t1 generate_try_trace [of env question ?ctx model_name 256 w1]
    by (simp add: answer_question_def answer_try_eq ctx)
qed

theorem context_is_chunks_joined_in_retrieval_order_witness:
  "query_similar_chunks
         (sample_env [''Paris is the capital of France.'', ''Lyon is a city in France.'']
            [Finite (1 / 4), Finite (3 / 4)])
         ''What is the capital of France?'' 5 ''pdf_chunks'' fresh_world =
     (Inr [\<lparr>chunk = ''Paris is the capital of France.'', score = Finite (3 / 4),
            metadata = chunk_metadata ''doc1'' 0\<rparr>,
           \<lparr>chunk = ''Lyon is a city in France.'', score = Finite (1 / 4),
            metadata = chunk_metadata ''doc1'' 1\<rparr>],
      fresh_world\<lparr>db := (db fresh_world)(''pdf_chunks'' \<mapsto> [])\<rparr>)
   \<and> gen_trace (snd (answer_question
         (sample_env [''Paris is the capital of France.'', ''Lyon is a city in France.'']
            [Finite (1 / 4), Finite (3 / 4)])
         ''What is the capital of France?'' 5 ''pdf_chunks'' ''google/flan-t5-base'' fresh_world)) =
     [LoadLLM ''google/flan-t5-base'',
      Pipe ''google/flan-t5-base''
        (format_prompt ''What is the capital of France?''
           (''Paris is the capital of France.'' @ [NL, NL] @ ''Lyon is a city in France.''))
        256]
   \<and> answer (projr (fst (answer_question
         (sample_env [''Paris is the capital of France.'', ''Lyon is a city in France.'']
            [Finite (1 / 4), Finite (3 / 4)])
         ''What is the capital of France?'' 5 ''pdf_chunks'' ''google/flan-t5-base'' fresh_world))) =
     Some ''Paris''"
proof -
  let ?env = "sample_env [''Paris is the capital of France.'', ''Lyon is a city in France.'']
            [Finite (1 / 4), Finite (3 / 4)]"
  let ?retrieved = "[\<lparr>chunk = ''Paris is the capital of France.'', score = Finite (3 / 4),
            metadata = chunk_metadata ''doc1'' 0\<rparr>,
           \<lparr>chunk = ''Lyon is a city in France.'', score = Finite (1 / 4),
            metadata = chunk_metadata ''doc1'' 1\<rparr>]"
  have f: "fst (query_similar_chunks ?env ''What is the capital of France?'' 5 ''pdf_chunks'' fresh_world) =
     Inr ?retrieved"
    by (subst sample_retrieval [of _ "[''Paris is the capital of France.'', ''Lyon is a city in France.'']"
          "[Finite (1 / 4), Finite (3 / 4)]"])
      (simp_all add: sample_env_def format_results_examples upt_examples float_examples)
  have s: "snd (query_similar_chunks ?env ''What is the capital of France?'' 5 ''pdf_chunks'' fresh_world) =
     fresh_world\<lparr>db := (db fresh_world)(''pdf_chunks'' \<mapsto> [])\<rparr>"
    by (simp add: query_similar_chunks_def get_or_create_collection_def load_embedding_model_def
        sample_env_def fresh_world_def split: sum.splits)
  have h: "query_similar_chunks ?env ''What is the capital of France?'' 5 ''pdf_chunks'' fresh_world =
     (Inr ?retrieved, fresh_world\<lparr>db := (db fresh_world)(''pdf_chunks'' \<mapsto> [])\<rparr>)"
    using f s by (simp add: prod_eq_iff)
  have ne: "?retrieved \<noteq> []" by simp
  have strip: "strip '' Paris '' = ''Paris''"
    by (simp add: strip_def is_space_def)
  let ?ctx = "chunk (hd ?retrieved) @ concat (map (\<lambda>item. [NL, NL] @ chunk item) (tl ?retrieved))"
  let ?w1 = "fresh_world\<lparr>db := (db fresh_world)(''pdf_chunks'' \<mapsto> [])\<rparr>"
  from context_is_chunks_joined_in_retrieval_order [OF h ne, of "''google/flan-t5-base''"]
  obtain a w2 r where
    g: "generate_answer ?env ''What is the capital of France?'' ?ctx ''google/flan-t5-base'' 256 ?w1 =
          (Inr a, w2)"
    and aq: "answer_question ?env ''What is the capital of France?'' 5 ''pdf_chunks''
          ''google/flan-t5-base'' fresh_world = (Inr r, w2)"
    and ar: "answer r = a"
    and tr: "gen_trace w2 = gen_trace fresh_world @ LoadLLM ''google/flan-t5-base'' #
        (case load_llm_error ?env ''google/flan-t5-base'' of
           None \<Rightarrow> [Pipe ''google/flan-t5-base''
             (format_prompt ''What is the capital of France?'' ?ctx) 256]
         | Some e \<Rightarrow> [])"
    by blast
  have "a = Some ''Paris''"
    using generate_answer_fst [of ?env "''What is the capital of France?''" ?ctx
        "''google/flan-t5-base''" 256 ?w1] g
    by (simp add: generate_try_fst sample_env_def index0_def strip)
  moreover have "gen_trace w2 = [LoadLLM ''google/flan-t5-base'',
      Pipe ''google/flan-t5-base''
        (format_prompt ''What is the capital of France?''
           (''Paris is the capital of France.'' @ [NL, NL] @ ''Lyon is a city in France.''))
        256]"
    using tr by (simp add: sample_env_def fresh_world_def)
  ultimately show ?thesis using h aq ar by simp
qed




end
